theory Spec2Isabelle
  imports Complex_Main "HOL-Library.AList"
begin

section \<open>JavaScript values, requests and responses\<close>

text \<open>
  The controller \<^verbatim>\<open>backend/controller/storeProduct.js\<close> handles loosely typed values:
  request bodies, query parameters, documents and thrown errors are all JavaScript
  values. One datatype covers them. Numbers are rationals (every finite double is one,
  and the code only compares them); an \<^verbatim>\<open>ObjectId\<close> is its 24-digit lower-case
  hexadecimal form; an object is the list of its properties, the first binding of a
  name being the one that is read.
\<close>

datatype jsval =
    JUndefined
  | JNull
  | JBool bool
  | JNum rat
  | JStr string
  | JOid string
  | JDate int
  | JArr "jsval list"
  | JObj "(string \<times> jsval) list"

text \<open>JavaScript truthiness: what \<^verbatim>\<open>!v\<close> and \<^verbatim>\<open>if (v)\<close> test.\<close>

fun truthy :: "jsval \<Rightarrow> bool" where
  "truthy JUndefined = False"
| "truthy JNull = False"
| "truthy (JBool b) = b"
| "truthy (JNum n) = (n \<noteq> 0)"
| "truthy (JStr s) = (s \<noteq> [])"
| "truthy (JOid h) = True"
| "truthy (JDate t) = True"
| "truthy (JArr xs) = True"
| "truthy (JObj fs) = True"

text \<open>Reading a property: \<^verbatim>\<open>undefined\<close> when the property is absent.\<close>

definition readProp :: "(string \<times> jsval) list \<Rightarrow> string \<Rightarrow> jsval" where
  "readProp fs k = (case map_of fs k of Some v \<Rightarrow> v | None \<Rightarrow> JUndefined)"

fun getf :: "jsval \<Rightarrow> string \<Rightarrow> jsval" where
  "getf (JObj fs) k = readProp fs k"
| "getf v k = JUndefined"

text \<open>
  A request as Express hands it to a handler: \<^verbatim>\<open>req.body\<close> is whatever the body
  parser produced (possibly \<^verbatim>\<open>undefined\<close>), \<^verbatim>\<open>req.query\<close> and \<^verbatim>\<open>req.params\<close>
  are always objects.
\<close>

record request =
  req_body :: jsval
  req_query :: "(string \<times> jsval) list"
  req_params :: "(string \<times> jsval) list"

text \<open>A response: the status given to \<^verbatim>\<open>res.status\<close> and the object given to \<^verbatim>\<open>json\<close>.\<close>

record response =
  status :: nat
  json :: jsval

definition reply :: "nat \<Rightarrow> (string \<times> jsval) list \<Rightarrow> response" where
  "reply c fs = \<lparr>status = c, json = JObj fs\<rparr>"

definition failure :: "nat \<Rightarrow> string \<Rightarrow> response" where
  "failure c m = reply c [(''success'', JBool False), (''message'', JStr m)]"

text \<open>
  A thrown error, with the four properties the handlers read:
  \<^verbatim>\<open>error.code\<close>, \<^verbatim>\<open>error.keyPattern\<close>, \<^verbatim>\<open>error.name\<close> and \<^verbatim>\<open>error.message\<close>.
\<close>

record jsError =
  err_code :: jsval
  err_keyPattern :: jsval
  err_name :: jsval
  err_message :: jsval

text \<open>
  Every handler but \<^verbatim>\<open>createStoreProduct\<close> has the same \<^verbatim>\<open>catch\<close> block:
  status 500 with \<^verbatim>\<open>error.message || '<default>'\<close>.
\<close>

definition internalFailure :: "jsError \<Rightarrow> string \<Rightarrow> response" where
  "internalFailure error dflt =
     reply 500 [(''success'', JBool False),
                (''message'', if truthy (err_message error) then err_message error else JStr dflt)]"

text \<open>
  The \<^verbatim>\<open>TypeError\<close> of destructuring \<^verbatim>\<open>req.body\<close> when it is \<^verbatim>\<open>undefined\<close> or
  \<^verbatim>\<open>null\<close>; the wording of the message is the engine's.
\<close>

definition destructureError :: jsError where
  "destructureError =
     \<lparr>err_code = JUndefined, err_keyPattern = JUndefined, err_name = JStr ''TypeError'',
      err_message = JStr ''Cannot destructure property productId of req.body''\<rparr>"

section \<open>The persistence layer as the controller sees it\<close>

text \<open>
  An aggregation pipeline is a list of stages; each stage keeps the object the source
  writes after \<^verbatim>\<open>$match\<close>, \<^verbatim>\<open>$project\<close> and \<^verbatim>\<open>$group\<close>, and the four strings of a
  \<^verbatim>\<open>$lookup\<close> (from, localField, foreignField, as).
\<close>

datatype stage =
    Match "(string \<times> jsval) list"
  | Lookup string string string string
  | Unwind string
  | Project "(string \<times> jsval) list"
  | Group "(string \<times> jsval) list"

text \<open>
  Mongoose and the database are outside the repository. The handlers are written against
  the calls they make: each call takes the state of the persistence layer and returns the
  new state with either the error it throws (\<open>Inl\<close>) or its result (\<open>Inr\<close>).
  \<open>populate\<close> paths are the list argument of the calls that are followed by
  \<^verbatim>\<open>.populate(...)\<close> in the source.
\<close>

type_synonym ('s, 'a) dbcall = "'s \<Rightarrow> (jsError + 'a) \<times> 's"

record 's persistence =
  ObjectId_isValid :: "jsval \<Rightarrow> bool"
  ObjectId_new :: "jsval \<Rightarrow> jsval"
  ProductModel_findById :: "jsval \<Rightarrow> ('s, jsval) dbcall"
  Store_findById :: "jsval \<Rightarrow> ('s, jsval) dbcall"
  StoreProduct_new :: "(string \<times> jsval) list \<Rightarrow> 's \<Rightarrow> jsval \<times> 's"
  StoreProduct_save :: "jsval \<Rightarrow> ('s, unit) dbcall"
  StoreProduct_findById :: "jsval \<Rightarrow> string list \<Rightarrow> ('s, jsval) dbcall"
  StoreProduct_aggregate :: "stage list \<Rightarrow> ('s, jsval) dbcall"
  StoreProduct_findByIdAndUpdate :: "jsval \<Rightarrow> jsval \<Rightarrow> (string \<times> jsval) list \<Rightarrow> string list \<Rightarrow> ('s, jsval) dbcall"
  StoreProduct_findByIdAndDelete :: "jsval \<Rightarrow> ('s, jsval) dbcall"
  StoreProduct_find :: "(string \<times> jsval) list \<Rightarrow> string list \<Rightarrow> ('s, jsval) dbcall"

section \<open>The handlers\<close>

text \<open>
  Each handler is its \<^verbatim>\<open>try\<close> block, which either throws or responds, followed by its
  \<^verbatim>\<open>catch\<close> block. A handler returns the response together with the state the
  persistence layer is left in.
\<close>

subsection \<open>createStoreProduct\<close>

definition missingRequired :: "jsval \<Rightarrow> jsval \<Rightarrow> jsval \<Rightarrow> jsval \<Rightarrow> bool" where
  "missingRequired productId storeId price stock \<longleftrightarrow>
     \<not> truthy productId \<or> \<not> truthy storeId \<or> price = JUndefined \<or> stock = JUndefined"

definition createStoreProduct_try :: "'s persistence \<Rightarrow> request \<Rightarrow> 's \<Rightarrow> (jsError + response) \<times> 's" where
  "createStoreProduct_try P req s =
    (if req_body req = JUndefined \<or> req_body req = JNull then (Inl destructureError, s)
     else
       let productId = getf (req_body req) ''productId'';
           storeId = getf (req_body req) ''storeId'';
           price = getf (req_body req) ''price'';
           stock = getf (req_body req) ''stock'';
           isAvailable = getf (req_body req) ''isAvailable'';
           recommended = getf (req_body req) ''recommended'';
           discount = getf (req_body req) ''discount'';
           storeSpecificImages = getf (req_body req) ''storeSpecificImages''
       in
       if missingRequired productId storeId price stock
       then (Inr (failure 400 ''Missing required fields for StoreProduct.''), s)
       else if \<not> ObjectId_isValid P productId \<or> \<not> ObjectId_isValid P storeId
       then (Inr (failure 400 ''Invalid format for Product ID or Store ID.''), s)
       else
         case ProductModel_findById P productId s of
           (Inl e, s1) \<Rightarrow> (Inl e, s1)
         | (Inr productExists, s1) \<Rightarrow>
         (case Store_findById P storeId s1 of
           (Inl e, s2) \<Rightarrow> (Inl e, s2)
         | (Inr storeExists, s2) \<Rightarrow>
         if \<not> truthy productExists
         then (Inr (failure 404 ''Common Product not found.''), s2)
         else if \<not> truthy storeExists
         then (Inr (failure 404 ''Store not found.''), s2)
         else
           (case StoreProduct_new P
                   [(''productId'', productId), (''storeId'', storeId), (''price'', price),
                    (''stock'', stock), (''isAvailable'', isAvailable),
                    (''recommended'', recommended), (''discount'', discount),
                    (''storeSpecificImages'', storeSpecificImages)] s2 of
             (newStoreProduct, s3) \<Rightarrow>
           (case StoreProduct_save P newStoreProduct s3 of
             (Inl e, s4) \<Rightarrow> (Inl e, s4)
           | (Inr u, s4) \<Rightarrow>
           (case StoreProduct_findById P (getf newStoreProduct ''_id'')
                   [''productId'', ''storeId''] s4 of
             (Inl e, s5) \<Rightarrow> (Inl e, s5)
           | (Inr populatedStoreProduct, s5) \<Rightarrow>
               (Inr (reply 201 [(''success'', JBool True),
                                (''message'', JStr ''Store Product created successfully.''),
                                (''storeProduct'', populatedStoreProduct)]), s5))))))"

definition isDuplicatePair :: "jsError \<Rightarrow> bool" where
  "isDuplicatePair error \<longleftrightarrow>
     err_code error = JNum 11000 \<and> truthy (err_keyPattern error) \<and>
     truthy (getf (err_keyPattern error) ''productId'') \<and>
     truthy (getf (err_keyPattern error) ''storeId'')"

definition createStoreProduct_catch :: "jsError \<Rightarrow> response" where
  "createStoreProduct_catch error =
    (if isDuplicatePair error
     then failure 409 ''This product already exists in this store.''
     else if err_name error = JStr ''CastError''
     then failure 400 ''Invalid ID format in request body.''
     else internalFailure error ''An error occurred while creating the store product.'')"

definition createStoreProduct :: "'s persistence \<Rightarrow> request \<Rightarrow> 's \<Rightarrow> response \<times> 's" where
  "createStoreProduct P req s =
    (case createStoreProduct_try P req s of
       (Inl error, s') \<Rightarrow> (createStoreProduct_catch error, s')
     | (Inr r, s') \<Rightarrow> (r, s'))"

subsection \<open>getStoreProducts\<close>

text \<open>The \<^verbatim>\<open>query\<close> object of lines 60 to 81, once \<^verbatim>\<open>storeId\<close> has been validated.\<close>

definition listQuery :: "'s persistence \<Rightarrow> request \<Rightarrow> (string \<times> jsval) list" where
  "listQuery P req =
    (let storeId = readProp (req_query req) ''storeId'';
         recommended = readProp (req_query req) ''recommended'';
         discount = readProp (req_query req) ''discount''
     in (if truthy storeId then [(''storeId'', ObjectId_new P storeId)] else [])
        @ (if recommended = JStr ''true'' then [(''recommended'', JBool True)] else [])
        @ (if discount = JStr ''true'' then [(''discount'', JBool True)] else []))"

text \<open>The pipeline of lines 85 to 140.\<close>

definition listPipeline :: "'s persistence \<Rightarrow> request \<Rightarrow> stage list" where
  "listPipeline P req =
    (let category = readProp (req_query req) ''category'';
         search = readProp (req_query req) ''search'';
         query = listQuery P req
     in (if length query > 0 then [Match query] else [])
        @ [Lookup ''products'' ''productId'' ''_id'' ''productDetails'',
           Unwind ''$productDetails'',
           Lookup ''stores'' ''storeId'' ''_id'' ''storeDetails'',
           Unwind ''$storeDetails'']
        @ (if truthy category then [Match [(''productDetails.category'', category)]] else [])
        @ (if truthy search
           then [Match [(''productDetails.name'',
                         JObj [(''$regex'', search), (''$options'', JStr ''i'')])]]
           else [])
        @ [Project [(''_id'', JNum 1), (''price'', JNum 1), (''stock'', JNum 1),
                    (''isAvailable'', JNum 1), (''recommended'', JNum 1),
                    (''discount'', JNum 1), (''storeSpecificImages'', JNum 1),
                    (''productId'', JStr ''$productDetails''),
                    (''storeId'', JStr ''$storeDetails''),
                    (''createdAt'', JNum 1), (''updatedAt'', JNum 1)]])"

definition getStoreProducts_try :: "'s persistence \<Rightarrow> request \<Rightarrow> 's \<Rightarrow> (jsError + response) \<times> 's" where
  "getStoreProducts_try P req s =
    (let storeId = readProp (req_query req) ''storeId''
     in if truthy storeId \<and> \<not> ObjectId_isValid P storeId
        then (Inr (failure 400 ''Invalid Store ID format.''), s)
        else
          case StoreProduct_aggregate P (listPipeline P req) s of
            (Inl e, s1) \<Rightarrow> (Inl e, s1)
          | (Inr storeProducts, s1) \<Rightarrow>
              (Inr (reply 200 [(''success'', JBool True), (''storeProducts'', storeProducts)]), s1))"

definition getStoreProducts :: "'s persistence \<Rightarrow> request \<Rightarrow> 's \<Rightarrow> response \<times> 's" where
  "getStoreProducts P req s =
    (case getStoreProducts_try P req s of
       (Inl error, s') \<Rightarrow>
         (internalFailure error ''An error occurred while fetching store products.'', s')
     | (Inr r, s') \<Rightarrow> (r, s'))"

subsection \<open>getStoreProductById\<close>


subsection \<open>updateStoreProduct\<close>


subsection \<open>deleteStoreProduct\<close>


subsection \<open>getProductSearchSummary\<close>



subsection \<open>getStoreOptionsForProduct\<close>



section \<open>An in-memory persistence layer\<close>

text \<open>
  What the calls do is decided by Mongoose, by MongoDB and by the three schema modules
  \<^verbatim>\<open>models/StoreProduct.js\<close>, \<^verbatim>\<open>models/Product.js\<close> and \<^verbatim>\<open>models/Store.js\<close>,
  none of which is part of the controller. This section models them: three collections
  of documents, the identifier counter behind \<^verbatim>\<open>new ObjectId()\<close>, a clock for the
  timestamps, and a counter of the controller's calls that were sent to the database.
\<close>

record database =
  products :: "jsval list"
  stores :: "jsval list"
  storeProducts :: "jsval list"
  nextId :: nat
  clock :: int
  queries :: nat

text \<open>
  What the schema leaves open is a parameter: how a value is cast to the type of a
  path other than the two references, the default of a path, the validators of a
  path, and the regular-expression engine (pattern, options, subject; \<open>None\<close> for a
  pattern that does not compile).
\<close>

record schemaConfig =
  cfg_cast :: "string \<Rightarrow> jsval \<Rightarrow> jsval option"
  cfg_default :: "string \<Rightarrow> jsval"
  cfg_validPath :: "string \<Rightarrow> jsval \<Rightarrow> bool"
  cfg_regex :: "string \<Rightarrow> string \<Rightarrow> (string \<Rightarrow> bool) option"

subsection \<open>Identifiers\<close>

definition isHexChar :: "char \<Rightarrow> bool" where
  "isHexChar c \<longleftrightarrow> c \<in> set ''0123456789abcdefABCDEF''"

definition lowerHex :: "char \<Rightarrow> char" where
  "lowerHex c =
    (if c = CHR ''A'' then CHR ''a'' else if c = CHR ''B'' then CHR ''b''
     else if c = CHR ''C'' then CHR ''c'' else if c = CHR ''D'' then CHR ''d''
     else if c = CHR ''E'' then CHR ''e'' else if c = CHR ''F'' then CHR ''f'' else c)"

definition hex24 :: "string \<Rightarrow> bool" where
  "hex24 s \<longleftrightarrow> length s = 24 \<and> list_all isHexChar s"

text \<open>
  \<^verbatim>\<open>mongoose.Types.ObjectId.isValid\<close>: a string of 24 hexadecimal digits, an
  \<^verbatim>\<open>ObjectId\<close>, or a number (from which the constructor would generate an identifier).
\<close>

fun mem_isValid :: "jsval \<Rightarrow> bool" where
  "mem_isValid (JStr s) = hex24 s"
| "mem_isValid (JOid h) = True"
| "mem_isValid (JNum n) = True"
| "mem_isValid v = False"

text \<open>
  Mongoose's cast to \<^verbatim>\<open>ObjectId\<close>, which goes through \<^verbatim>\<open>toString\<close>: a number is
  accepted by \<^verbatim>\<open>isValid\<close> and still fails to cast.
\<close>

fun castObjectId :: "jsval \<Rightarrow> string option" where
  "castObjectId (JOid h) = Some h"
| "castObjectId (JStr s) = (if hex24 s then Some (map lowerHex s) else None)"
| "castObjectId v = None"

text \<open>
  \<^verbatim>\<open>new mongoose.Types.ObjectId(v)\<close> for a string or an \<^verbatim>\<open>ObjectId\<close>. A number
  cannot arrive in a query string; the identifier the constructor would generate from
  one is not modelled.
\<close>

definition mem_ObjectId_new :: "jsval \<Rightarrow> jsval" where
  "mem_ObjectId_new v = (case castObjectId v of Some h \<Rightarrow> JOid h | None \<Rightarrow> JUndefined)"

definition hexDigit :: "nat \<Rightarrow> char" where
  "hexDigit n = ''0123456789abcdef'' ! (n mod 16)"

fun hexDigits :: "nat \<Rightarrow> nat \<Rightarrow> string" where
  "hexDigits 0 n = []"
| "hexDigits (Suc k) n = hexDigits k (n div 16) @ [hexDigit n]"

definition genId :: "nat \<Rightarrow> string" where
  "genId n = hexDigits 24 n"

subsection \<open>Errors of the persistence layer\<close>

definition castError :: "string \<Rightarrow> jsError" where
  "castError path =
     \<lparr>err_code = JUndefined, err_keyPattern = JUndefined, err_name = JStr ''CastError'',
      err_message = JStr (''Cast failed at path '' @ path)\<rparr>"

definition validationError :: "string \<Rightarrow> jsError" where
  "validationError path =
     \<lparr>err_code = JUndefined, err_keyPattern = JUndefined, err_name = JStr ''ValidationError'',
      err_message = JStr (''Validation failed at path '' @ path)\<rparr>"

definition duplicateKeyError :: "string list \<Rightarrow> jsError" where
  "duplicateKeyError paths =
     \<lparr>err_code = JNum 11000, err_keyPattern = JObj (map (\<lambda>k. (k, JNum 1)) paths),
      err_name = JStr ''MongoServerError'',
      err_message = JStr ''E11000 duplicate key error''\<rparr>"

definition immutableFieldError :: jsError where
  "immutableFieldError =
     \<lparr>err_code = JNum 66, err_keyPattern = JUndefined, err_name = JStr ''MongoServerError'',
      err_message = JStr ''Performing an update on the path _id would modify the immutable field _id''\<rparr>"

definition pipelineError :: jsError where
  "pipelineError =
     \<lparr>err_code = JNum 2, err_keyPattern = JUndefined, err_name = JStr ''MongoServerError'',
      err_message = JStr ''unknown operator or invalid regular expression''\<rparr>"

subsection \<open>Documents\<close>

definition setf :: "jsval \<Rightarrow> string \<Rightarrow> jsval \<Rightarrow> jsval" where
  "setf d k v = (case d of JObj fs \<Rightarrow> JObj (AList.update k v fs) | _ \<Rightarrow> d)"

definition findDoc :: "jsval list \<Rightarrow> string \<Rightarrow> jsval option" where
  "findDoc docs h = find (\<lambda>d. getf d ''_id'' = JOid h) docs"

definition docOrNull :: "jsval option \<Rightarrow> jsval" where
  "docOrNull r = (case r of Some d \<Rightarrow> d | None \<Rightarrow> JNull)"

text \<open>
  Modelled from the spec: the schema of \<^verbatim>\<open>models/StoreProduct.js\<close>, which is not part
  of the controller. Its paths are those of the spec's data model; \<open>productId\<close> refers to
  a Product and \<open>storeId\<close> to a Store; \<open>productId\<close>, \<open>storeId\<close>, \<open>price\<close> and
  \<open>stock\<close> are required; the pair (\<open>productId\<close>, \<open>storeId\<close>) is unique; the
  timestamps \<open>createdAt\<close> and \<open>updatedAt\<close> are managed by the system.
\<close>

definition schemaPaths :: "string list" where
  "schemaPaths = [''productId'', ''storeId'', ''price'', ''stock'', ''isAvailable'',
                  ''recommended'', ''discount'', ''storeSpecificImages'']"

text \<open>
  Modelled from the spec: the required paths of the schema of \<^verbatim>\<open>models/StoreProduct.js\<close>
  (\<open>productId\<close>, \<open>storeId\<close>, \<open>price\<close> and \<open>stock\<close> are marked required in
  the data model).
\<close>

definition requiredPaths :: "string list" where
  "requiredPaths = [''productId'', ''storeId'', ''price'', ''stock'']"

text \<open>
  Modelled from the spec: the collections the two references of the schema of
  \<^verbatim>\<open>models/StoreProduct.js\<close> point into (a StoreProduct is many-to-one with Product and
  with Store).
\<close>

definition refCollection :: "database \<Rightarrow> string \<Rightarrow> jsval list" where
  "refCollection db path =
    (if path = ''productId'' then products db
     else if path = ''storeId'' then stores db else [])"

text \<open>
  Modelled from the spec: the unique index of the schema of \<^verbatim>\<open>models/StoreProduct.js\<close>
  (the invariant that the pair (\<open>productId\<close>, \<open>storeId\<close>) is unique). Two documents
  collide on it when they agree on both fields.
\<close>

definition samePair :: "jsval \<Rightarrow> jsval \<Rightarrow> bool" where
  "samePair d e \<longleftrightarrow>
     getf d ''productId'' = getf e ''productId'' \<and> getf d ''storeId'' = getf e ''storeId''"

text \<open>
  Casting a value to the type of a path: \<^verbatim>\<open>null\<close> and \<^verbatim>\<open>undefined\<close> stay as they
  are, the identifier and the two references are cast to \<^verbatim>\<open>ObjectId\<close>, any other path
  as the schema says.
\<close>

definition castField :: "schemaConfig \<Rightarrow> string \<Rightarrow> jsval \<Rightarrow> jsval option" where
  "castField cfg k v =
    (if v = JNull \<or> v = JUndefined then Some v
     else if k = ''_id'' \<or> k = ''productId'' \<or> k = ''storeId''
     then map_option JOid (castObjectId v)
     else cfg_cast cfg k v)"

definition validField :: "schemaConfig \<Rightarrow> string \<Rightarrow> jsval \<Rightarrow> bool" where
  "validField cfg k v \<longleftrightarrow>
     (k \<in> set requiredPaths \<longrightarrow> v \<noteq> JNull \<and> v \<noteq> JUndefined) \<and> cfg_validPath cfg k v"

text \<open>\<^verbatim>\<open>.populate(path)\<close>: the reference is replaced by the document it names, or by \<^verbatim>\<open>null\<close>.\<close>

definition populateRef :: "jsval list \<Rightarrow> jsval \<Rightarrow> jsval" where
  "populateRef coll v = (case v of JOid h \<Rightarrow> docOrNull (findDoc coll h) | _ \<Rightarrow> v)"

fun populate :: "database \<Rightarrow> string list \<Rightarrow> jsval \<Rightarrow> jsval" where
  "populate db [] d = d"
| "populate db (p # ps) d =
     populate db ps
       (if getf d p = JUndefined then d
        else setf d p (populateRef (refCollection db p) (getf d p)))"

definition sent :: "database \<Rightarrow> database" where
  "sent db = db\<lparr>queries := queries db + 1\<rparr>"

subsection \<open>findById, save, findByIdAndUpdate, findByIdAndDelete, find\<close>

definition mem_findById :: "(database \<Rightarrow> jsval list) \<Rightarrow> jsval \<Rightarrow> string list \<Rightarrow> (database, jsval) dbcall" where
  "mem_findById coll ident paths db =
    (case castObjectId ident of
       None \<Rightarrow> (Inl (castError ''_id''), db)
     | Some h \<Rightarrow>
         (Inr (case findDoc (coll db) h of
                 Some d \<Rightarrow> populate db paths d
               | None \<Rightarrow> JNull), sent db))"

text \<open>
  \<^verbatim>\<open>new StoreProduct({...})\<close> gives the document its identifier; properties that are
  \<^verbatim>\<open>undefined\<close> are not set.
\<close>

definition mem_new :: "(string \<times> jsval) list \<Rightarrow> database \<Rightarrow> jsval \<times> database" where
  "mem_new given db =
    (JObj ((''_id'', JOid (genId (nextId db))) # filter (\<lambda>kv. snd kv \<noteq> JUndefined) given),
     db\<lparr>nextId := nextId db + 1\<rparr>)"

text \<open>
  The paths of a new document, cast, with defaults; the first path that fails to cast or
  to validate makes \<^verbatim>\<open>save\<close> reject with a \<^verbatim>\<open>ValidationError\<close>. A document that
  passes is inserted with both timestamps, unless its identifier or its pair
  (\<open>productId\<close>, \<open>storeId\<close>) is taken: then the database rejects it with the
  duplicate-key error of the index concerned.
\<close>

fun castDocument :: "schemaConfig \<Rightarrow> jsval \<Rightarrow> string list \<Rightarrow> jsError + (string \<times> jsval) list" where
  "castDocument cfg d [] = Inr []"
| "castDocument cfg d (k # ks) =
    (case castField cfg k (if getf d k = JUndefined then cfg_default cfg k else getf d k) of
       None \<Rightarrow> Inl (validationError k)
     | Some v \<Rightarrow>
         if \<not> validField cfg k v then Inl (validationError k)
         else (case castDocument cfg d ks of
                 Inl e \<Rightarrow> Inl e
               | Inr r \<Rightarrow> Inr (if v = JUndefined then r else (k, v) # r)))"

definition mem_save :: "schemaConfig \<Rightarrow> jsval \<Rightarrow> (database, unit) dbcall" where
  "mem_save cfg d db =
    (case castDocument cfg d schemaPaths of
       Inl e \<Rightarrow> (Inl e, db)
     | Inr fs \<Rightarrow>
         let doc = JObj ((''_id'', getf d ''_id'') # fs
                         @ [(''createdAt'', JDate (clock db)), (''updatedAt'', JDate (clock db))])
         in if \<exists>e \<in> set (storeProducts db). getf e ''_id'' = getf doc ''_id''
            then (Inl (duplicateKeyError [''_id'']), sent db)
            else if \<exists>e \<in> set (storeProducts db). samePair e doc
            then (Inl (duplicateKeyError [''productId'', ''storeId'']), sent db)
            else (Inr (), (sent db)\<lparr>storeProducts := storeProducts db @ [doc],
                                     clock := clock db + 1\<rparr>))"

text \<open>
  The paths of an update that the body supplies, cast; with \<^verbatim>\<open>runValidators\<close> they are
  validated too. A path that fails to cast throws a \<^verbatim>\<open>CastError\<close>. Properties of the
  body that are not paths of the schema are dropped (strict mode); update operators
  (properties whose name starts with \<^verbatim>\<open>$\<close>) are outside this model.
\<close>

fun castUpdate :: "schemaConfig \<Rightarrow> bool \<Rightarrow> jsval \<Rightarrow> string list \<Rightarrow> jsError + (string \<times> jsval) list" where
  "castUpdate cfg validate body [] = Inr []"
| "castUpdate cfg validate body (k # ks) =
    (if getf body k = JUndefined then castUpdate cfg validate body ks
     else case castField cfg k (getf body k) of
       None \<Rightarrow> Inl (castError k)
     | Some v \<Rightarrow>
         if validate \<and> \<not> validField cfg k v then Inl (validationError k)
         else (case castUpdate cfg validate body ks of
                 Inl e \<Rightarrow> Inl e
               | Inr r \<Rightarrow> Inr ((k, v) # r)))"

text \<open>\<^verbatim>\<open>findOneAndUpdate\<close> and \<^verbatim>\<open>findOneAndDelete\<close> touch the first document that matches.\<close>

fun replaceFirst :: "(jsval \<Rightarrow> bool) \<Rightarrow> jsval \<Rightarrow> jsval list \<Rightarrow> jsval list" where
  "replaceFirst p n [] = []"
| "replaceFirst p n (d # ds) = (if p d then n # ds else d # replaceFirst p n ds)"

fun removeFirst :: "(jsval \<Rightarrow> bool) \<Rightarrow> jsval list \<Rightarrow> jsval list" where
  "removeFirst p [] = []"
| "removeFirst p (d # ds) = (if p d then ds else d # removeFirst p ds)"

fun applySets :: "(string \<times> jsval) list \<Rightarrow> jsval \<Rightarrow> jsval" where
  "applySets [] d = d"
| "applySets ((k, v) # r) d = applySets r (setf d k v)"

definition mem_findByIdAndUpdate ::
  "schemaConfig \<Rightarrow> jsval \<Rightarrow> jsval \<Rightarrow> (string \<times> jsval) list \<Rightarrow> string list \<Rightarrow> (database, jsval) dbcall" where
  "mem_findByIdAndUpdate cfg ident body opts paths db =
    (case castObjectId ident of
       None \<Rightarrow> (Inl (castError ''_id''), db)
     | Some h \<Rightarrow>
     (case castUpdate cfg (truthy (readProp opts ''runValidators'')) body (''_id'' # schemaPaths) of
       Inl e \<Rightarrow> (Inl e, db)
     | Inr sets \<Rightarrow>
     (case findDoc (storeProducts db) h of
       None \<Rightarrow> (Inr JNull, sent db)
     | Some old \<Rightarrow>
         let new = applySets (sets @ [(''updatedAt'', JDate (clock db))]) old
         in if getf new ''_id'' \<noteq> JOid h then (Inl immutableFieldError, sent db)
            else if \<exists>e \<in> set (storeProducts db). getf e ''_id'' \<noteq> JOid h \<and> samePair e new
            then (Inl (duplicateKeyError [''productId'', ''storeId'']), sent db)
            else
              let db' = (sent db)\<lparr>storeProducts :=
                                     replaceFirst (\<lambda>e. getf e ''_id'' = JOid h) new
                                       (storeProducts db),
                                   clock := clock db + 1\<rparr>
              in (Inr (populate db' paths (if truthy (readProp opts ''new'') then new else old)),
                  db'))))"

definition mem_findByIdAndDelete :: "jsval \<Rightarrow> (database, jsval) dbcall" where
  "mem_findByIdAndDelete ident db =
    (case castObjectId ident of
       None \<Rightarrow> (Inl (castError ''_id''), db)
     | Some h \<Rightarrow>
     (case findDoc (storeProducts db) h of
       None \<Rightarrow> (Inr JNull, sent db)
     | Some old \<Rightarrow>
         (Inr old, (sent db)\<lparr>storeProducts :=
                               removeFirst (\<lambda>e. getf e ''_id'' = JOid h) (storeProducts db)\<rparr>)))"

text \<open>
  A condition \<^verbatim>\<open>{path: value}\<close> on a document: the value at the path equals the
  value asked for, or is an array that holds it; \<^verbatim>\<open>null\<close> also matches a missing path.
\<close>

definition eqMatch :: "jsval \<Rightarrow> jsval \<Rightarrow> bool" where
  "eqMatch v c \<longleftrightarrow>
     v = c \<or> (c = JNull \<and> v = JUndefined) \<or> (case v of JArr xs \<Rightarrow> c \<in> set xs | _ \<Rightarrow> False)"

fun castFilter :: "schemaConfig \<Rightarrow> (string \<times> jsval) list \<Rightarrow> jsError + (string \<times> jsval) list" where
  "castFilter cfg [] = Inr []"
| "castFilter cfg ((k, v) # r) =
    (case castField cfg k v of
       None \<Rightarrow> Inl (castError k)
     | Some v' \<Rightarrow> (case castFilter cfg r of Inl e \<Rightarrow> Inl e | Inr r' \<Rightarrow> Inr ((k, v') # r')))"

definition mem_find :: "schemaConfig \<Rightarrow> (string \<times> jsval) list \<Rightarrow> string list \<Rightarrow> (database, jsval) dbcall" where
  "mem_find cfg flt paths db =
    (case castFilter cfg flt of
       Inl e \<Rightarrow> (Inl e, db)
     | Inr conds \<Rightarrow>
         (Inr (JArr (map (populate db paths)
                       (filter (\<lambda>d. \<forall>kc \<in> set conds. eqMatch (getf d (fst kc)) (snd kc))
                          (storeProducts db)))), sent db))"

subsection \<open>The aggregation pipeline\<close>

text \<open>\<^verbatim>\<open>'a.b'\<close> names the property \<open>b\<close> of the property \<open>a\<close>.\<close>

fun splitDots :: "string \<Rightarrow> string list" where
  "splitDots [] = [[]]"
| "splitDots (c # cs) =
    (if c = CHR ''.'' then [] # splitDots cs
     else (case splitDots cs of w # ws \<Rightarrow> (c # w) # ws | [] \<Rightarrow> [[c]]))"

fun getPath :: "jsval \<Rightarrow> string list \<Rightarrow> jsval" where
  "getPath v [] = v"
| "getPath v (k # ks) = getPath (getf v k) ks"

text \<open>An expression \<^verbatim>\<open>'$a.b'\<close> reads a path of the document; anything else is a literal.\<close>

definition fieldRef :: "jsval \<Rightarrow> jsval \<Rightarrow> jsval" where
  "fieldRef d e =
    (case e of
       JStr (c # path) \<Rightarrow> if c = CHR ''$'' then getPath d (splitDots path) else e
     | _ \<Rightarrow> e)"

definition orNull :: "jsval \<Rightarrow> jsval" where
  "orNull v = (if v = JUndefined then JNull else v)"

definition collectionNamed :: "database \<Rightarrow> string \<Rightarrow> jsval list" where
  "collectionNamed db name =
    (if name = ''products'' then products db
     else if name = ''stores'' then stores db
     else if name = ''storeproducts'' then storeProducts db else [])"

text \<open>
  \<^verbatim>\<open>$match\<close>. A condition whose value is an object with a first property named
  \<^verbatim>\<open>$...\<close> is an operator expression; of those only \<^verbatim>\<open>$regex\<close> with \<^verbatim>\<open>$options\<close>
  is modelled, and any other makes the stage fail.
\<close>

definition isOperatorExpr :: "jsval \<Rightarrow> bool" where
  "isOperatorExpr c =
    (case c of
       JObj (kv # fs) \<Rightarrow> (case fst kv of ch # _ \<Rightarrow> ch = CHR ''$'' | [] \<Rightarrow> False)
     | _ \<Rightarrow> False)"

definition regexOn :: "(string \<Rightarrow> bool) \<Rightarrow> jsval \<Rightarrow> bool" where
  "regexOn m v =
    (case v of
       JStr s \<Rightarrow> m s
     | JArr xs \<Rightarrow> \<exists>x \<in> set xs. (case x of JStr s \<Rightarrow> m s | _ \<Rightarrow> False)
     | _ \<Rightarrow> False)"

definition compileCond :: "schemaConfig \<Rightarrow> jsval \<Rightarrow> (jsval \<Rightarrow> bool) option" where
  "compileCond cfg c =
    (if isOperatorExpr c
     then (case getf c ''$regex'' of
             JStr pat \<Rightarrow>
               (case getf c ''$options'' of
                  JStr opts \<Rightarrow> map_option regexOn (cfg_regex cfg pat opts)
                | _ \<Rightarrow> None)
           | _ \<Rightarrow> None)
     else Some (\<lambda>v. eqMatch v c))"

fun compileMatch :: "schemaConfig \<Rightarrow> (string \<times> jsval) list \<Rightarrow> (jsval \<Rightarrow> bool) option" where
  "compileMatch cfg [] = Some (\<lambda>d. True)"
| "compileMatch cfg ((k, c) # r) =
    (case compileCond cfg c of
       None \<Rightarrow> None
     | Some t \<Rightarrow>
         (case compileMatch cfg r of
            None \<Rightarrow> None
          | Some u \<Rightarrow> Some (\<lambda>d. t (getPath d (splitDots k)) \<and> u d)))"

text \<open>
  \<^verbatim>\<open>$lookup\<close>: the documents of the other collection whose foreign field equals the
  local field (a missing field counts as \<^verbatim>\<open>null\<close>, an array matches by its elements)
  are stored as an array.
\<close>

definition lookupEq :: "jsval \<Rightarrow> jsval \<Rightarrow> bool" where
  "lookupEq v w \<longleftrightarrow>
     orNull v = orNull w
     \<or> (case v of JArr xs \<Rightarrow> orNull w \<in> set xs | _ \<Rightarrow> False)
     \<or> (case w of JArr ys \<Rightarrow> orNull v \<in> set ys | _ \<Rightarrow> False)"

definition lookupStage :: "jsval list \<Rightarrow> string \<Rightarrow> string \<Rightarrow> string \<Rightarrow> jsval \<Rightarrow> jsval" where
  "lookupStage foreign localField foreignField as d =
     setf d as (JArr (filter (\<lambda>f. lookupEq (getf d localField) (getf f foreignField)) foreign))"

text \<open>
  \<^verbatim>\<open>$unwind\<close>: one document for each element of the array; none when the array is
  empty, \<^verbatim>\<open>null\<close> or missing.
\<close>

definition unwindStage :: "string \<Rightarrow> jsval \<Rightarrow> jsval list" where
  "unwindStage path d =
    (let k = (case path of c # r \<Rightarrow> if c = CHR ''$'' then r else path | [] \<Rightarrow> path)
     in case getf d k of
          JArr xs \<Rightarrow> map (setf d k) xs
        | JUndefined \<Rightarrow> []
        | JNull \<Rightarrow> []
        | _ \<Rightarrow> [d])"

text \<open>
  \<^verbatim>\<open>$project\<close>: \<^verbatim>\<open>field: 1\<close> keeps the field, \<^verbatim>\<open>field: '$path'\<close> computes it; a
  value that is missing leaves the field out.
\<close>

definition projectStage :: "(string \<times> jsval) list \<Rightarrow> jsval \<Rightarrow> jsval" where
  "projectStage spec d =
     JObj (concat (map (\<lambda>ke.
        let v = (if snd ke = JNum 1 \<or> snd ke = JBool True then getf d (fst ke)
                 else fieldRef d (snd ke))
        in if v = JUndefined then [] else [(fst ke, v)]) spec))"

text \<open>
  \<^verbatim>\<open>$group\<close>: one document for each distinct value of the \<^verbatim>\<open>_id\<close> expression, in an
  order the database does not promise, with the accumulators \<^verbatim>\<open>$first\<close>, \<^verbatim>\<open>$min\<close>
  and \<^verbatim>\<open>$max\<close>. \<^verbatim>\<open>$min\<close> and \<^verbatim>\<open>$max\<close> are modelled on numbers (the type of
  \<open>price\<close>); values that are missing, \<^verbatim>\<open>null\<close> or not numbers are passed over.
\<close>

definition numbersOf :: "jsval list \<Rightarrow> rat list" where
  "numbersOf vs = concat (map (\<lambda>v. case v of JNum r \<Rightarrow> [r] | _ \<Rightarrow> []) vs)"

definition minOf :: "jsval list \<Rightarrow> jsval" where
  "minOf vs = (case numbersOf vs of [] \<Rightarrow> JNull | r # rs \<Rightarrow> JNum (fold min rs r))"

definition maxOf :: "jsval list \<Rightarrow> jsval" where
  "maxOf vs = (case numbersOf vs of [] \<Rightarrow> JNull | r # rs \<Rightarrow> JNum (fold max rs r))"

definition evalAcc :: "jsval \<Rightarrow> jsval list \<Rightarrow> jsval" where
  "evalAcc a docs =
    (case a of
       JObj [(op, e)] \<Rightarrow>
         let vs = map (\<lambda>d. orNull (fieldRef d e)) docs
         in if op = ''$first'' then (case vs of [] \<Rightarrow> JNull | v # _ \<Rightarrow> v)
            else if op = ''$min'' then minOf vs
            else if op = ''$max'' then maxOf vs
            else JNull
     | _ \<Rightarrow> JNull)"

definition groupKey :: "(string \<times> jsval) list \<Rightarrow> jsval \<Rightarrow> jsval" where
  "groupKey spec d = orNull (fieldRef d (readProp spec ''_id''))"

definition groupStage :: "(string \<times> jsval) list \<Rightarrow> jsval list \<Rightarrow> jsval list" where
  "groupStage spec docs =
     map (\<lambda>k. JObj ((''_id'', k) #
                    map (\<lambda>na. (fst na, evalAcc (snd na) (filter (\<lambda>d. groupKey spec d = k) docs)))
                      (filter (\<lambda>na. fst na \<noteq> ''_id'') spec)))
       (remdups (map (groupKey spec) docs))"

fun runStage :: "schemaConfig \<Rightarrow> database \<Rightarrow> stage \<Rightarrow> jsval list \<Rightarrow> jsError + jsval list" where
  "runStage cfg db (Match conds) docs =
    (case compileMatch cfg conds of
       None \<Rightarrow> Inl pipelineError
     | Some t \<Rightarrow> Inr (filter t docs))"
| "runStage cfg db (Lookup from localField foreignField as) docs =
     Inr (map (lookupStage (collectionNamed db from) localField foreignField as) docs)"
| "runStage cfg db (Unwind path) docs = Inr (concat (map (unwindStage path) docs))"
| "runStage cfg db (Project spec) docs = Inr (map (projectStage spec) docs)"
| "runStage cfg db (Group spec) docs = Inr (groupStage spec docs)"

fun runPipeline :: "schemaConfig \<Rightarrow> database \<Rightarrow> stage list \<Rightarrow> jsval list \<Rightarrow> jsError + jsval list" where
  "runPipeline cfg db [] docs = Inr docs"
| "runPipeline cfg db (st # sts) docs =
    (case runStage cfg db st docs of
       Inl e \<Rightarrow> Inl e
     | Inr docs' \<Rightarrow> runPipeline cfg db sts docs')"

definition mem_aggregate :: "schemaConfig \<Rightarrow> stage list \<Rightarrow> (database, jsval) dbcall" where
  "mem_aggregate cfg pipeline db =
    (case runPipeline cfg db pipeline (storeProducts db) of
       Inl e \<Rightarrow> (Inl e, sent db)
     | Inr docs \<Rightarrow> (Inr (JArr docs), sent db))"

subsection \<open>The layer\<close>

definition mem :: "schemaConfig \<Rightarrow> database persistence" where
  "mem cfg =
    \<lparr>ObjectId_isValid = mem_isValid,
     ObjectId_new = mem_ObjectId_new,
     ProductModel_findById = (\<lambda>i. mem_findById products i []),
     Store_findById = (\<lambda>i. mem_findById stores i []),
     StoreProduct_new = mem_new,
     StoreProduct_save = mem_save cfg,
     StoreProduct_findById = mem_findById storeProducts,
     StoreProduct_aggregate = mem_aggregate cfg,
     StoreProduct_findByIdAndUpdate = mem_findByIdAndUpdate cfg,
     StoreProduct_findByIdAndDelete = mem_findByIdAndDelete,
     StoreProduct_find = mem_find cfg\<rparr>"

subsection \<open>An example database\<close>

text \<open>
  A schema configuration and a database for the examples: numbers, booleans and arrays
  are accepted where the data model asks for them and nothing is coerced, no path has a
  default or a validator of its own, and a pattern matches the subjects that contain it.
\<close>

definition strictCast :: "string \<Rightarrow> jsval \<Rightarrow> jsval option" where
  "strictCast k v =
    (if k = ''price'' \<or> k = ''stock'' then (case v of JNum r \<Rightarrow> Some v | _ \<Rightarrow> None)
     else if k = ''isAvailable'' \<or> k = ''recommended'' \<or> k = ''discount''
     then (case v of JBool b \<Rightarrow> Some v | _ \<Rightarrow> None)
     else if k = ''storeSpecificImages'' then (case v of JArr xs \<Rightarrow> Some v | _ \<Rightarrow> None)
     else Some v)"

definition exampleConfig :: schemaConfig where
  "exampleConfig =
     \<lparr>cfg_cast = strictCast,
      cfg_default = (\<lambda>k. JUndefined),
      cfg_validPath = (\<lambda>k v. True),
      cfg_regex = (\<lambda>pat opts. Some (\<lambda>s.
         list_ex (\<lambda>i. take (length pat) (drop i s) = pat) [0..<Suc (length s)]))\<rparr>"

definition idRice :: string where "idRice = ''aaaaaaaaaaaaaaaaaaaaaaaa''"
definition idNorth :: string where "idNorth = ''bbbbbbbbbbbbbbbbbbbbbbbb''"
definition idSouth :: string where "idSouth = ''cccccccccccccccccccccccc''"
definition idRiceNorth :: string where "idRiceNorth = ''dddddddddddddddddddddddd''"
definition idRiceSouth :: string where "idRiceSouth = ''eeeeeeeeeeeeeeeeeeeeeeee''"
definition idEast :: string where "idEast = ''ffffffffffffffffffffffff''"

definition riceNorth :: jsval where
  "riceNorth =
     JObj [(''_id'', JOid idRiceNorth), (''productId'', JOid idRice), (''storeId'', JOid idNorth),
           (''price'', JNum 5), (''stock'', JNum 3), (''isAvailable'', JBool True),
           (''recommended'', JBool False),
           (''createdAt'', JDate 1), (''updatedAt'', JDate 1)]"

definition riceSouth :: jsval where
  "riceSouth =
     JObj [(''_id'', JOid idRiceSouth), (''productId'', JOid idRice), (''storeId'', JOid idSouth),
           (''price'', JNum 7), (''stock'', JNum 0), (''isAvailable'', JBool True),
           (''recommended'', JBool True),
           (''createdAt'', JDate 2), (''updatedAt'', JDate 2)]"

definition exampleDb :: database where
  "exampleDb =
    \<lparr>products = [JObj [(''_id'', JOid idRice), (''name'', JStr ''Rice''),
                       (''category'', JStr ''Grains'')]],
     stores = [JObj [(''_id'', JOid idNorth), (''name'', JStr ''North'')],
               JObj [(''_id'', JOid idSouth), (''name'', JStr ''South'')],
               JObj [(''_id'', JOid idEast), (''name'', JStr ''East'')]],
     storeProducts = [riceNorth, riceSouth],
     nextId = 0, clock = 10, queries = 0\<rparr>"

definition bodyRequest :: "jsval \<Rightarrow> request" where
  "bodyRequest b = \<lparr>req_body = b, req_query = [], req_params = []\<rparr>"

definition queryRequest :: "(string \<times> jsval) list \<Rightarrow> request" where
  "queryRequest q = \<lparr>req_body = JUndefined, req_query = q, req_params = []\<rparr>"


section \<open>What the claims are stated with\<close>

text \<open>
  Stored documents that conform to the schemas: a StoreProduct refers to its Product and
  to its Store by \<^verbatim>\<open>ObjectId\<close>, and the identifiers of the products and of the
  stores are \<^verbatim>\<open>ObjectId\<close>s, each used once (the database's index on \<open>_id\<close>).
\<close>

fun isObjectId :: "jsval \<Rightarrow> bool" where
  "isObjectId (JOid h) = True"
| "isObjectId v = False"


definition idOf :: "jsval \<Rightarrow> jsval" where
  "idOf d = getf d ''_id''"

definition wellFormed :: "database \<Rightarrow> bool" where
  "wellFormed db \<longleftrightarrow>
     list_all (\<lambda>sp. isObjectId (getf sp ''productId'') \<and> isObjectId (getf sp ''storeId''))
       (storeProducts db)
     \<and> list_all (\<lambda>p. isObjectId (idOf p)) (products db)
     \<and> list_all (\<lambda>st. isObjectId (idOf st)) (stores db)
     \<and> distinct (map idOf (products db))
     \<and> distinct (map idOf (stores db))"



text \<open>A List request without filter criteria.\<close>

definition noFilters :: "request \<Rightarrow> bool" where
  "noFilters req \<longleftrightarrow>
     \<not> truthy (readProp (req_query req) ''storeId'')
     \<and> readProp (req_query req) ''recommended'' \<noteq> JStr ''true''
     \<and> readProp (req_query req) ''discount'' \<noteq> JStr ''true''
     \<and> \<not> truthy (readProp (req_query req) ''category'')
     \<and> \<not> truthy (readProp (req_query req) ''search'')"

text \<open>
  The list the specification describes for List without filters, written from its words:
  every record whose Product and Store both exist, with the two documents inline in
  place of the identifiers, and with the record's own identifier, price, stock,
  availability, recommended, discount, images and timestamps (those it has).
\<close>

definition referenced :: "jsval list \<Rightarrow> jsval \<Rightarrow> jsval option" where
  "referenced coll v = find (\<lambda>d. idOf d = v) coll"

definition present :: "jsval \<Rightarrow> string list \<Rightarrow> (string \<times> jsval) list" where
  "present d ks = concat (map (\<lambda>k. if getf d k = JUndefined then [] else [(k, getf d k)]) ks)"

definition spec_expanded :: "jsval \<Rightarrow> jsval \<Rightarrow> jsval \<Rightarrow> jsval" where
  "spec_expanded sp p st =
     JObj (present sp [''_id'', ''price'', ''stock'', ''isAvailable'', ''recommended'',
                       ''discount'', ''storeSpecificImages'']
           @ [(''productId'', p), (''storeId'', st)]
           @ present sp [''createdAt'', ''updatedAt''])"

definition spec_listAll :: "database \<Rightarrow> jsval list" where
  "spec_listAll db =
     concat (map (\<lambda>sp.
        case referenced (products db) (getf sp ''productId'') of
          None \<Rightarrow> []
        | Some p \<Rightarrow>
            (case referenced (stores db) (getf sp ''storeId'') of
               None \<Rightarrow> []
             | Some st \<Rightarrow> [spec_expanded sp p st])) (storeProducts db))"




text \<open>Requests and databases of the examples.\<close>

definition idBeans :: string where "idBeans = ''999999999999999999999999''"
definition idBeansNorth :: string where "idBeansNorth = ''888888888888888888888888''"

definition beansNorth :: jsval where
  "beansNorth =
     JObj [(''_id'', JOid idBeansNorth), (''productId'', JOid idBeans), (''storeId'', JOid idNorth),
           (''price'', JNum 2), (''stock'', JNum 8), (''isAvailable'', JBool True),
           (''createdAt'', JDate 3), (''updatedAt'', JDate 3)]"

definition orphanDb :: database where
  "orphanDb = exampleDb\<lparr>storeProducts := [riceNorth, beansNorth, riceSouth]\<rparr>"


definition discountRequest :: "string \<Rightarrow> request" where
  "discountRequest v = queryRequest [(''discount'', JStr v)]"



definition zeroPriceRequest :: request where
  "zeroPriceRequest =
     bodyRequest (JObj [(''productId'', JStr idRice), (''storeId'', JStr idEast),
                        (''price'', JNum 0), (''stock'', JNum 0)])"

definition emptyProductIdRequest :: request where
  "emptyProductIdRequest =
     bodyRequest (JObj [(''productId'', JStr []), (''storeId'', JStr idEast),
                        (''price'', JNum 5), (''stock'', JNum 3)])"

definition unknownProductRequest :: request where
  "unknownProductRequest =
     bodyRequest (JObj [(''productId'', JStr idNorth), (''storeId'', JStr idRice),
                        (''price'', JNum 5), (''stock'', JNum 3)])"

definition unknownStoreRequest :: request where
  "unknownStoreRequest =
     bodyRequest (JObj [(''productId'', JStr idRice), (''storeId'', JStr idRiceNorth),
                        (''price'', JNum 5), (''stock'', JNum 3)])"

definition duplicateRequest :: request where
  "duplicateRequest =
     bodyRequest (JObj [(''productId'', JStr idRice), (''storeId'', JStr idNorth),
                        (''price'', JNum 6), (''stock'', JNum 1)])"







section \<open>Malformed identifiers\<close>





lemma status_failure [simp]: "status (failure c m) = c"
  by (simp add: failure_def reply_def)





section \<open>The checks of Create\<close>

lemma json_failure [simp]:
  "json (failure c m) = JObj [(''success'', JBool False), (''message'', JStr m)]"
  by (simp add: failure_def reply_def)

lemma status_reply [simp]: "status (reply c fs) = c"
  by (simp add: reply_def)

lemma status_internalFailure [simp]: "status (internalFailure e d) = 500"
  by (simp add: internalFailure_def)

lemma create_present:
  assumes "\<not> missingRequired (getf (req_body req) ''productId'') (getf (req_body req) ''storeId'')
             (getf (req_body req) ''price'') (getf (req_body req) ''stock'')"
  shows "req_body req \<noteq> JUndefined" and "req_body req \<noteq> JNull"
  using assms by (auto simp: missingRequired_def)

lemma create_missing:
  assumes "req_body req \<noteq> JUndefined" and "req_body req \<noteq> JNull"
    and "missingRequired (getf (req_body req) ''productId'') (getf (req_body req) ''storeId'')
             (getf (req_body req) ''price'') (getf (req_body req) ''stock'')"
  shows "createStoreProduct P req s = (failure 400 ''Missing required fields for StoreProduct.'', s)"
  using assms by (simp add: createStoreProduct_def createStoreProduct_try_def Let_def)


lemma create_catch_not_missing:
  "createStoreProduct_catch e \<noteq> failure 400 ''Missing required fields for StoreProduct.''"
proof
  assume a: "createStoreProduct_catch e = failure 400 ''Missing required fields for StoreProduct.''"
  then have "json (createStoreProduct_catch e) = json (failure 400 ''Missing required fields for StoreProduct.'')"
    by simp
  moreover have "status (createStoreProduct_catch e) = 400" using a by simp
  ultimately show False
    by (auto simp: createStoreProduct_catch_def internalFailure_def split: if_splits)
qed

lemma create_not_missing:
  assumes "\<not> missingRequired (getf (req_body req) ''productId'') (getf (req_body req) ''storeId'')
             (getf (req_body req) ''price'') (getf (req_body req) ''stock'')"
  shows "fst (createStoreProduct P req s) \<noteq> failure 400 ''Missing required fields for StoreProduct.''"
proof -
  note b = create_present [OF assms]
  have "fst (createStoreProduct_try P req s) \<noteq> Inr (failure 400 ''Missing required fields for StoreProduct.'')"
    using assms b
    by (auto simp: createStoreProduct_try_def Let_def failure_def reply_def
             split: prod.splits sum.splits)
  then show ?thesis
    using create_catch_not_missing
    by (auto simp: createStoreProduct_def split: prod.splits sum.splits)
qed

text \<open>
  Claim C10. For a body that is there, Create answers with the missing-field response
  exactly when \<open>productId\<close> or \<open>storeId\<close> is falsy or \<open>price\<close> or \<open>stock\<close>
  is \<^verbatim>\<open>undefined\<close>. So a price of 0 with a stock of 0 passes the check and the
  handler goes on, while an empty \<open>productId\<close> or \<open>storeId\<close> is answered 400 with
  the state untouched. This holds for every persistence layer.
\<close>

theorem create_required_fields:
  "(req_body req \<noteq> JUndefined \<and> req_body req \<noteq> JNull \<longrightarrow>
      (fst (createStoreProduct P req s) = failure 400 ''Missing required fields for StoreProduct.''
       \<longleftrightarrow> \<not> truthy (getf (req_body req) ''productId'')
           \<or> \<not> truthy (getf (req_body req) ''storeId'')
           \<or> getf (req_body req) ''price'' = JUndefined
           \<or> getf (req_body req) ''stock'' = JUndefined))
   \<and> (truthy (getf (req_body req) ''productId'') \<and> truthy (getf (req_body req) ''storeId'')
        \<and> getf (req_body req) ''price'' = JNum 0 \<and> getf (req_body req) ''stock'' = JNum 0
      \<longrightarrow> fst (createStoreProduct P req s) \<noteq> failure 400 ''Missing required fields for StoreProduct.'')
   \<and> (getf (req_body req) ''productId'' = JStr [] \<or> getf (req_body req) ''storeId'' = JStr []
      \<longrightarrow> createStoreProduct P req s = (failure 400 ''Missing required fields for StoreProduct.'', s))"
proof -
  have a: "req_body req \<noteq> JUndefined \<and> req_body req \<noteq> JNull \<longrightarrow>
        (fst (createStoreProduct P req s) = failure 400 ''Missing required fields for StoreProduct.''
         \<longleftrightarrow> missingRequired (getf (req_body req) ''productId'') (getf (req_body req) ''storeId'')
             (getf (req_body req) ''price'') (getf (req_body req) ''stock''))"
    using create_missing [of req P s] create_not_missing [of req P s] by auto
  have b: "truthy (getf (req_body req) ''productId'') \<and> truthy (getf (req_body req) ''storeId'')
        \<and> getf (req_body req) ''price'' = JNum 0 \<and> getf (req_body req) ''stock'' = JNum 0
      \<longrightarrow> fst (createStoreProduct P req s) \<noteq> failure 400 ''Missing required fields for StoreProduct.''"
    using create_not_missing [of req P s] by (simp add: missingRequired_def)
  have c: "getf (req_body req) ''productId'' = JStr [] \<or> getf (req_body req) ''storeId'' = JStr []
      \<longrightarrow> createStoreProduct P req s = (failure 400 ''Missing required fields for StoreProduct.'', s)"
  proof
    assume h: "getf (req_body req) ''productId'' = JStr [] \<or> getf (req_body req) ''storeId'' = JStr []"
    then have "req_body req \<noteq> JUndefined" "req_body req \<noteq> JNull" by auto
    moreover have "missingRequired (getf (req_body req) ''productId'') (getf (req_body req) ''storeId'')
             (getf (req_body req) ''price'') (getf (req_body req) ''stock'')"
      using h by (auto simp: missingRequired_def)
    ultimately show "createStoreProduct P req s = (failure 400 ''Missing required fields for StoreProduct.'', s)"
      by (rule create_missing)
  qed
  from a b c show ?thesis by (simp add: missingRequired_def)
qed

text \<open>The theorem at a request with price 0 and stock 0, and at one with an empty \<open>productId\<close>.\<close>

theorem create_required_fields_witness:
  "getf (req_body zeroPriceRequest) ''price'' = JNum 0
   \<and> getf (req_body zeroPriceRequest) ''stock'' = JNum 0
   \<and> fst (createStoreProduct (mem exampleConfig) zeroPriceRequest exampleDb)
        \<noteq> failure 400 ''Missing required fields for StoreProduct.''
   \<and> getf (req_body emptyProductIdRequest) ''productId'' = JStr []
   \<and> createStoreProduct (mem exampleConfig) emptyProductIdRequest exampleDb
        = (failure 400 ''Missing required fields for StoreProduct.'', exampleDb)"
proof -
  have z: "getf (req_body zeroPriceRequest) ''price'' = JNum 0"
    "getf (req_body zeroPriceRequest) ''stock'' = JNum 0"
    "truthy (getf (req_body zeroPriceRequest) ''productId'')"
    "truthy (getf (req_body zeroPriceRequest) ''storeId'')"
    by (simp_all add: zeroPriceRequest_def bodyRequest_def readProp_def idRice_def idEast_def)
  have e: "getf (req_body emptyProductIdRequest) ''productId'' = JStr []"
    by (simp add: emptyProductIdRequest_def bodyRequest_def readProp_def)
  show ?thesis
    using z e create_required_fields [of zeroPriceRequest "mem exampleConfig" exampleDb]
      create_required_fields [of emptyProductIdRequest "mem exampleConfig" exampleDb]
    by blast
qed

section \<open>Create: the referenced Product and Store\<close>

lemma create_lookups:
  assumes "\<not> missingRequired (getf (req_body req) ''productId'') (getf (req_body req) ''storeId'')
             (getf (req_body req) ''price'') (getf (req_body req) ''stock'')"
    and "ObjectId_isValid P (getf (req_body req) ''productId'')"
    and "ObjectId_isValid P (getf (req_body req) ''storeId'')"
    and "ProductModel_findById P (getf (req_body req) ''productId'') s = (Inr p, s1)"
    and "Store_findById P (getf (req_body req) ''storeId'') s1 = (Inr st, s2)"
  shows "\<not> truthy p \<Longrightarrow> createStoreProduct P req s = (failure 404 ''Common Product not found.'', s2)"
    and "truthy p \<Longrightarrow> \<not> truthy st \<Longrightarrow> createStoreProduct P req s = (failure 404 ''Store not found.'', s2)"
  using assms create_present [OF assms(1)]
  by (simp_all add: createStoreProduct_def createStoreProduct_try_def Let_def)

lemma castObjectId_truthy: "castObjectId v = Some a \<Longrightarrow> truthy v \<and> mem_isValid v"
  by (cases v) (auto simp: hex24_def split: if_splits)

lemma findDoc_id: "findDoc docs a = Some d \<Longrightarrow> getf d ''_id'' = JOid a \<and> d \<in> set docs"
  unfolding findDoc_def by (induction docs) (auto split: if_splits)

lemma findDoc_truthy: "findDoc docs a = Some d \<Longrightarrow> truthy d"
  using findDoc_id [of docs a d] by (cases d) auto

lemma mem_fields [simp]:
  "ObjectId_isValid (mem cfg) = mem_isValid"
  "ObjectId_new (mem cfg) = mem_ObjectId_new"
  "ProductModel_findById (mem cfg) = (\<lambda>i. mem_findById products i [])"
  "Store_findById (mem cfg) = (\<lambda>i. mem_findById stores i [])"
  "StoreProduct_new (mem cfg) = mem_new"
  "StoreProduct_save (mem cfg) = mem_save cfg"
  "StoreProduct_findById (mem cfg) = mem_findById storeProducts"
  "StoreProduct_aggregate (mem cfg) = mem_aggregate cfg"
  "StoreProduct_findByIdAndUpdate (mem cfg) = mem_findByIdAndUpdate cfg"
  "StoreProduct_findByIdAndDelete (mem cfg) = mem_findByIdAndDelete"
  "StoreProduct_find (mem cfg) = mem_find cfg"
  by (simp_all add: mem_def)

lemma sent_fields [simp]:
  "products (sent db) = products db" "stores (sent db) = stores db"
  "storeProducts (sent db) = storeProducts db" "nextId (sent db) = nextId db"
  "clock (sent db) = clock db" "queries (sent db) = Suc (queries db)"
  by (simp_all add: sent_def)

text \<open>
  Claim C3. For every persistence layer: when the required fields are there and both
  identifiers are well formed, and the two lookups resolve, Create answers 404
  \<^verbatim>\<open>Common Product not found.\<close> as soon as the Product lookup resolves to \<^verbatim>\<open>null\<close>,
  whatever the Store lookup resolved to, and 404 \<^verbatim>\<open>Store not found.\<close> when the Product
  is there and the Store lookup resolves to \<^verbatim>\<open>null\<close>. On the in-memory layer, for
  identifiers that cast: no product with that identifier gives the first answer whatever
  the stores are, and a product but no store gives the second.
\<close>

theorem create_references_checked:
  "(\<not> missingRequired (getf (req_body req) ''productId'') (getf (req_body req) ''storeId'')
             (getf (req_body req) ''price'') (getf (req_body req) ''stock'')
     \<and> ObjectId_isValid P (getf (req_body req) ''productId'')
     \<and> ObjectId_isValid P (getf (req_body req) ''storeId'')
     \<and> ProductModel_findById P (getf (req_body req) ''productId'') s = (Inr p, s1)
     \<and> Store_findById P (getf (req_body req) ''storeId'') s1 = (Inr st, s2)
    \<longrightarrow> (\<not> truthy p \<longrightarrow>
           createStoreProduct P req s = (failure 404 ''Common Product not found.'', s2))
      \<and> (truthy p \<and> \<not> truthy st \<longrightarrow>
           createStoreProduct P req s = (failure 404 ''Store not found.'', s2)))
   \<and> (castObjectId (getf (req_body req) ''productId'') = Some a
       \<and> castObjectId (getf (req_body req) ''storeId'') = Some b
       \<and> getf (req_body req) ''price'' \<noteq> JUndefined \<and> getf (req_body req) ''stock'' \<noteq> JUndefined
      \<longrightarrow> (findDoc (products db) a = None \<longrightarrow>
             fst (createStoreProduct (mem cfg) req db) = failure 404 ''Common Product not found.'')
        \<and> (findDoc (products db) a \<noteq> None \<and> findDoc (stores db) b = None \<longrightarrow>
             fst (createStoreProduct (mem cfg) req db) = failure 404 ''Store not found.''))"
proof -
  have 1: "\<not> missingRequired (getf (req_body req) ''productId'') (getf (req_body req) ''storeId'')
             (getf (req_body req) ''price'') (getf (req_body req) ''stock'')
     \<and> ObjectId_isValid P (getf (req_body req) ''productId'')
     \<and> ObjectId_isValid P (getf (req_body req) ''storeId'')
     \<and> ProductModel_findById P (getf (req_body req) ''productId'') s = (Inr p, s1)
     \<and> Store_findById P (getf (req_body req) ''storeId'') s1 = (Inr st, s2)
    \<longrightarrow> (\<not> truthy p \<longrightarrow>
           createStoreProduct P req s = (failure 404 ''Common Product not found.'', s2))
      \<and> (truthy p \<and> \<not> truthy st \<longrightarrow>
           createStoreProduct P req s = (failure 404 ''Store not found.'', s2))"
    using create_lookups [of req P s p s1 st s2] by blast
  have 2: "castObjectId (getf (req_body req) ''productId'') = Some a
       \<and> castObjectId (getf (req_body req) ''storeId'') = Some b
       \<and> getf (req_body req) ''price'' \<noteq> JUndefined \<and> getf (req_body req) ''stock'' \<noteq> JUndefined
      \<longrightarrow> (findDoc (products db) a = None \<longrightarrow>
             fst (createStoreProduct (mem cfg) req db) = failure 404 ''Common Product not found.'')
        \<and> (findDoc (products db) a \<noteq> None \<and> findDoc (stores db) b = None \<longrightarrow>
             fst (createStoreProduct (mem cfg) req db) = failure 404 ''Store not found.'')"
  proof (intro impI, elim conjE)
    assume c: "castObjectId (getf (req_body req) ''productId'') = Some a"
      "castObjectId (getf (req_body req) ''storeId'') = Some b"
      and d: "getf (req_body req) ''price'' \<noteq> JUndefined" "getf (req_body req) ''stock'' \<noteq> JUndefined"
    have m: "\<not> missingRequired (getf (req_body req) ''productId'') (getf (req_body req) ''storeId'')
             (getf (req_body req) ''price'') (getf (req_body req) ''stock'')"
      using c d castObjectId_truthy by (simp add: missingRequired_def)
    have v: "ObjectId_isValid (mem cfg) (getf (req_body req) ''productId'')"
      "ObjectId_isValid (mem cfg) (getf (req_body req) ''storeId'')"
      using c castObjectId_truthy by simp_all
    have l1: "ProductModel_findById (mem cfg) (getf (req_body req) ''productId'') db
               = (Inr (docOrNull (findDoc (products db) a)), sent db)"
      using c by (simp add: mem_findById_def docOrNull_def split: option.splits)
    have l2: "Store_findById (mem cfg) (getf (req_body req) ''storeId'') (sent db)
               = (Inr (docOrNull (findDoc (stores db) b)), sent (sent db))"
      using c by (simp add: mem_findById_def docOrNull_def split: option.splits)
    show "(findDoc (products db) a = None \<longrightarrow>
             fst (createStoreProduct (mem cfg) req db) = failure 404 ''Common Product not found.'')
        \<and> (findDoc (products db) a \<noteq> None \<and> findDoc (stores db) b = None \<longrightarrow>
             fst (createStoreProduct (mem cfg) req db) = failure 404 ''Store not found.'')"
      using create_lookups [OF m v l1 l2] findDoc_truthy [of "products db" a]
      by (auto simp: docOrNull_def)
  qed
  from 1 2 show ?thesis by blast
qed


text \<open>
  The theorem on the example database: a request that names neither a product nor a
  store, and one that names a product and no store.
\<close>

theorem create_references_checked_witness:
  "castObjectId (getf (req_body unknownProductRequest) ''productId'') = Some idNorth
   \<and> castObjectId (getf (req_body unknownProductRequest) ''storeId'') = Some idRice
   \<and> findDoc (products exampleDb) idNorth = None
   \<and> findDoc (stores exampleDb) idRice = None
   \<and> fst (createStoreProduct (mem exampleConfig) unknownProductRequest exampleDb)
        = failure 404 ''Common Product not found.''
   \<and> castObjectId (getf (req_body unknownStoreRequest) ''productId'') = Some idRice
   \<and> castObjectId (getf (req_body unknownStoreRequest) ''storeId'') = Some idRiceNorth
   \<and> findDoc (products exampleDb) idRice \<noteq> None
   \<and> findDoc (stores exampleDb) idRiceNorth = None
   \<and> fst (createStoreProduct (mem exampleConfig) unknownStoreRequest exampleDb)
        = failure 404 ''Store not found.''"
proof -
  have p: "castObjectId (getf (req_body unknownProductRequest) ''productId'') = Some idNorth"
    "castObjectId (getf (req_body unknownProductRequest) ''storeId'') = Some idRice"
    "getf (req_body unknownProductRequest) ''price'' \<noteq> JUndefined"
    "getf (req_body unknownProductRequest) ''stock'' \<noteq> JUndefined"
    "findDoc (products exampleDb) idNorth = None"
    "findDoc (stores exampleDb) idRice = None"
    by code_simp+
  have q: "castObjectId (getf (req_body unknownStoreRequest) ''productId'') = Some idRice"
    "castObjectId (getf (req_body unknownStoreRequest) ''storeId'') = Some idRiceNorth"
    "getf (req_body unknownStoreRequest) ''price'' \<noteq> JUndefined"
    "getf (req_body unknownStoreRequest) ''stock'' \<noteq> JUndefined"
    "findDoc (products exampleDb) idRice \<noteq> None"
    "findDoc (stores exampleDb) idRiceNorth = None"
    by code_simp+
  have 1: "fst (createStoreProduct (mem exampleConfig) unknownProductRequest exampleDb)
        = failure 404 ''Common Product not found.''"
    using p create_references_checked [where req = unknownProductRequest and a = idNorth
        and b = idRice and db = exampleDb and cfg = exampleConfig, THEN conjunct2]
    by simp
  have 2: "fst (createStoreProduct (mem exampleConfig) unknownStoreRequest exampleDb)
        = failure 404 ''Store not found.''"
    using q create_references_checked [where req = unknownStoreRequest and a = idRice
        and b = idRiceNorth and db = exampleDb and cfg = exampleConfig, THEN conjunct2]
    by simp
  from p q 1 2 show ?thesis by blast
qed

section \<open>Errors thrown by the persistence layer\<close>


lemma create_save_throws:
  assumes "\<not> missingRequired (getf (req_body req) ''productId'') (getf (req_body req) ''storeId'')
             (getf (req_body req) ''price'') (getf (req_body req) ''stock'')"
    and "ObjectId_isValid P (getf (req_body req) ''productId'')"
    and "ObjectId_isValid P (getf (req_body req) ''storeId'')"
    and "ProductModel_findById P (getf (req_body req) ''productId'') s = (Inr p, s1)"
    and "Store_findById P (getf (req_body req) ''storeId'') s1 = (Inr st, s2)"
    and "truthy p" and "truthy st"
    and "StoreProduct_new P
           [(''productId'', getf (req_body req) ''productId''),
            (''storeId'', getf (req_body req) ''storeId''),
            (''price'', getf (req_body req) ''price''),
            (''stock'', getf (req_body req) ''stock''),
            (''isAvailable'', getf (req_body req) ''isAvailable''),
            (''recommended'', getf (req_body req) ''recommended''),
            (''discount'', getf (req_body req) ''discount''),
            (''storeSpecificImages'', getf (req_body req) ''storeSpecificImages'')] s2 = (d, s3)"
    and "StoreProduct_save P d s3 = (Inl e, s4)"
  shows "createStoreProduct P req s = (createStoreProduct_catch e, s4)"
  using assms create_present [OF assms(1)]
  by (simp add: createStoreProduct_def createStoreProduct_try_def Let_def)

lemma create_lookup_throws:
  assumes "\<not> missingRequired (getf (req_body req) ''productId'') (getf (req_body req) ''storeId'')
             (getf (req_body req) ''price'') (getf (req_body req) ''stock'')"
    and "ObjectId_isValid P (getf (req_body req) ''productId'')"
    and "ObjectId_isValid P (getf (req_body req) ''storeId'')"
    and "ProductModel_findById P (getf (req_body req) ''productId'') s = (Inl e, s1)"
  shows "createStoreProduct P req s = (createStoreProduct_catch e, s1)"
  using assms create_present [OF assms(1)]
  by (simp add: createStoreProduct_def createStoreProduct_try_def Let_def)












section \<open>Reading and writing properties\<close>

lemma readProp_Cons [simp]:
  "readProp ((k, v) # fs) k' = (if k' = k then v else readProp fs k')"
  by (simp add: readProp_def)

lemma readProp_Nil [simp]: "readProp [] k = JUndefined"
  by (simp add: readProp_def)

lemma readProp_update [simp]:
  "readProp (AList.update k v fs) k' = (if k' = k then v else readProp fs k')"
  by (simp add: readProp_def update_conv')

lemma readProp_append:
  "readProp (fs @ gs) k = (if k \<in> fst ` set fs then readProp fs k else readProp gs k)"
proof (cases "map_of fs k")
  case None
  then have "k \<notin> fst ` set fs" by (simp add: map_of_eq_None_iff)
  with None show ?thesis by (simp add: readProp_def map_add_def)
next
  case (Some v)
  then have "k \<in> fst ` set fs" by (metis map_of_eq_None_iff option.distinct(1))
  with Some show ?thesis by (simp add: readProp_def map_add_def)
qed

lemma readProp_absent: "k \<notin> fst ` set fs \<Longrightarrow> readProp fs k = JUndefined"
  by (simp add: readProp_def map_of_eq_None_iff[THEN iffD2])

lemma readProp_filter_defined:
  "distinct (map fst fs) \<Longrightarrow>
     readProp (filter (\<lambda>kv. snd kv \<noteq> JUndefined) fs) k = readProp fs k"
proof (induction fs)
  case Nil
  then show ?case by simp
next
  case (Cons kv fs)
  obtain k' v where kv: "kv = (k', v)" by (cases kv)
  have "k' \<notin> fst ` set (filter (\<lambda>kv. snd kv \<noteq> JUndefined) fs)"
    using Cons.prems kv by auto
  then have "readProp (filter (\<lambda>kv. snd kv \<noteq> JUndefined) fs) k' = JUndefined"
    by (rule readProp_absent)
  then show ?case using Cons kv by auto
qed

lemma getf_setf:
  "getf (setf (JObj fs) k v) k' = (if k' = k then v else getf (JObj fs) k')"
  by (simp add: setf_def)

lemma setf_isObj: "\<exists>gs. setf (JObj fs) k v = JObj gs"
  by (simp add: setf_def)

lemma getf_defined_obj: "getf d k \<noteq> JUndefined \<Longrightarrow> \<exists>fs. d = JObj fs"
  by (cases d) auto

lemma isObjectId_obj: "isObjectId (getf d k) \<Longrightarrow> \<exists>fs. d = JObj fs"
  by (cases d) auto

lemma isObjectId_iff: "isObjectId v \<longleftrightarrow> (\<exists>h. v = JOid h)"
  by (cases v) auto

section \<open>Store options for a product\<close>


lemma castField_ref:
  "castObjectId v = Some a \<Longrightarrow> castField cfg ''productId'' v = Some (JOid a)"
  "castObjectId v = Some a \<Longrightarrow> castField cfg ''storeId'' v = Some (JOid a)"
  "castObjectId v = Some a \<Longrightarrow> castField cfg ''_id'' v = Some (JOid a)"
  by (cases v; simp add: castField_def)+








section \<open>Create for a pair that is already there\<close>

lemma castDocument_cong:
  "(\<And>k. k \<in> set ks \<Longrightarrow> getf d k = getf d' k) \<Longrightarrow> castDocument cfg d ks = castDocument cfg d' ks"
  by (induction ks) (auto split: option.splits sum.splits)

lemma castDocument_refs:
  assumes "castDocument cfg d schemaPaths = Inr fs"
    and "castObjectId (getf d ''productId'') = Some a"
    and "castObjectId (getf d ''storeId'') = Some b"
  shows "readProp (fs @ ts) ''productId'' = JOid a \<and> readProp (fs @ ts) ''storeId'' = JOid b"
proof -
  have u: "getf d ''productId'' \<noteq> JUndefined" "getf d ''storeId'' \<noteq> JUndefined"
    using assms(2,3) by auto
  have "\<exists>r. fs = (''productId'', JOid a) # (''storeId'', JOid b) # r"
    using assms u
    by (auto simp: schemaPaths_def castField_ref split: if_splits sum.splits)
  then show ?thesis by auto
qed

lemma mem_new_getf:
  assumes "distinct (map fst given)" and "k \<noteq> ''_id''"
  shows "getf (fst (mem_new given db)) k = readProp given k"
  using assms by (simp add: mem_new_def readProp_filter_defined)

lemma mem_new_id: "getf (fst (mem_new given db)) ''_id'' = JOid (genId (nextId db))"
  by (simp add: mem_new_def)

lemma mem_new_state:
  "storeProducts (snd (mem_new given db)) = storeProducts db"
  "products (snd (mem_new given db)) = products db"
  "stores (snd (mem_new given db)) = stores db"
  by (simp_all add: mem_new_def)

lemma mem_save_duplicate:
  assumes "castDocument cfg d schemaPaths = Inr fs"
    and "castObjectId (getf d ''productId'') = Some a"
    and "castObjectId (getf d ''storeId'') = Some b"
    and "\<forall>e \<in> set (storeProducts db). getf e ''_id'' \<noteq> getf d ''_id''"
    and "\<exists>e \<in> set (storeProducts db). getf e ''productId'' = JOid a \<and> getf e ''storeId'' = JOid b"
  shows "mem_save cfg d db = (Inl (duplicateKeyError [''productId'', ''storeId'']), sent db)"
proof -
  note r = castDocument_refs [OF assms(1,2,3)]
  show ?thesis
    using assms(1,4,5) r
    by (auto simp: mem_save_def Let_def samePair_def)
qed

lemma isDuplicatePair_error [simp]: "isDuplicatePair (duplicateKeyError [''productId'', ''storeId''])"
  by (simp add: isDuplicatePair_def duplicateKeyError_def)

lemma create_duplicate:
  assumes c1: "castObjectId (getf (req_body req) ''productId'') = Some a"
    and c2: "castObjectId (getf (req_body req) ''storeId'') = Some b"
    and d: "getf (req_body req) ''price'' \<noteq> JUndefined" "getf (req_body req) ''stock'' \<noteq> JUndefined"
    and fp: "findDoc (products db) a \<noteq> None"
    and fs: "findDoc (stores db) b \<noteq> None"
    and cd: "castDocument cfg (req_body req) schemaPaths = Inr fs"
    and fresh: "\<forall>e \<in> set (storeProducts db). getf e ''_id'' \<noteq> JOid (genId (nextId db))"
    and dup: "\<exists>e \<in> set (storeProducts db). getf e ''productId'' = JOid a \<and> getf e ''storeId'' = JOid b"
  shows "fst (createStoreProduct (mem cfg) req db) = failure 409 ''This product already exists in this store.''"
    and "storeProducts (snd (createStoreProduct (mem cfg) req db)) = storeProducts db"
    and "products (snd (createStoreProduct (mem cfg) req db)) = products db"
    and "stores (snd (createStoreProduct (mem cfg) req db)) = stores db"
proof -
  let ?given = "[(''productId'', getf (req_body req) ''productId''),
            (''storeId'', getf (req_body req) ''storeId''),
            (''price'', getf (req_body req) ''price''),
            (''stock'', getf (req_body req) ''stock''),
            (''isAvailable'', getf (req_body req) ''isAvailable''),
            (''recommended'', getf (req_body req) ''recommended''),
            (''discount'', getf (req_body req) ''discount''),
            (''storeSpecificImages'', getf (req_body req) ''storeSpecificImages'')]"
  let ?s2 = "sent (sent db)"
  let ?d = "fst (mem_new ?given ?s2)"
  let ?s3 = "snd (mem_new ?given ?s2)"
  obtain p st where p: "findDoc (products db) a = Some p" and st: "findDoc (stores db) b = Some st"
    using fp fs by auto
  have m: "\<not> missingRequired (getf (req_body req) ''productId'') (getf (req_body req) ''storeId'')
             (getf (req_body req) ''price'') (getf (req_body req) ''stock'')"
    using c1 c2 d castObjectId_truthy by (simp add: missingRequired_def)
  have v: "ObjectId_isValid (mem cfg) (getf (req_body req) ''productId'')"
    "ObjectId_isValid (mem cfg) (getf (req_body req) ''storeId'')"
    using c1 c2 castObjectId_truthy by simp_all
  have l1: "ProductModel_findById (mem cfg) (getf (req_body req) ''productId'') db = (Inr p, sent db)"
    using c1 p by (simp add: mem_findById_def)
  have l2: "Store_findById (mem cfg) (getf (req_body req) ''storeId'') (sent db) = (Inr st, ?s2)"
    using c2 st by (simp add: mem_findById_def)
  have t: "truthy p" "truthy st" using p st findDoc_truthy by auto
  have n: "StoreProduct_new (mem cfg) ?given ?s2 = (?d, ?s3)" by simp
  have g: "\<And>k. k \<in> set schemaPaths \<Longrightarrow> getf ?d k = getf (req_body req) k"
  proof -
    fix k assume k: "k \<in> set schemaPaths"
    then have "k \<noteq> ''_id''" by (auto simp: schemaPaths_def)
    then have "getf ?d k = readProp ?given k" by (intro mem_new_getf) simp_all
    also have "\<dots> = getf (req_body req) k" using k by (auto simp: schemaPaths_def)
    finally show "getf ?d k = getf (req_body req) k" .
  qed
  have cd': "castDocument cfg ?d schemaPaths = Inr fs"
    using castDocument_cong [of schemaPaths ?d "req_body req" cfg] g cd by simp
  have gp: "getf ?d ''productId'' = getf (req_body req) ''productId''"
    "getf ?d ''storeId'' = getf (req_body req) ''storeId''"
    by (rule g, simp add: schemaPaths_def)+
  have sv: "StoreProduct_save (mem cfg) ?d ?s3
             = (Inl (duplicateKeyError [''productId'', ''storeId'']), sent ?s3)"
    using mem_save_duplicate [of cfg ?d fs a b ?s3] cd' c1 c2 fresh dup
    by (simp add: gp mem_new_state mem_new_id)
  have r: "createStoreProduct (mem cfg) req db
            = (createStoreProduct_catch (duplicateKeyError [''productId'', ''storeId'']), sent ?s3)"
    by (rule create_save_throws [OF m v l1 l2 t n sv])
  show "fst (createStoreProduct (mem cfg) req db) = failure 409 ''This product already exists in this store.''"
    by (simp add: r createStoreProduct_catch_def)
  show "storeProducts (snd (createStoreProduct (mem cfg) req db)) = storeProducts db"
    "products (snd (createStoreProduct (mem cfg) req db)) = products db"
    "stores (snd (createStoreProduct (mem cfg) req db)) = stores db"
    by (simp_all add: r mem_new_state)
qed

text \<open>
  Claim C4, on the in-memory layer. Take a Create request that gets as far as the insert:
  both identifiers cast, \<open>price\<close> and \<open>stock\<close> are given, the Product and the Store
  exist, the body passes the casts and validators of the schema, and the identifier
  generated for the new document is not in use. If a StoreProduct record for the same
  (\<open>productId\<close>, \<open>storeId\<close>) is already stored, the unique index makes \<^verbatim>\<open>save\<close>
  throw a duplicate-key error, Create answers 409, and the three collections are what
  they were: no second record for the pair is stored.
\<close>

theorem create_duplicate_conflict:
  "castObjectId (getf (req_body req) ''productId'') = Some a
   \<and> castObjectId (getf (req_body req) ''storeId'') = Some b
   \<and> getf (req_body req) ''price'' \<noteq> JUndefined \<and> getf (req_body req) ''stock'' \<noteq> JUndefined
   \<and> findDoc (products db) a \<noteq> None \<and> findDoc (stores db) b \<noteq> None
   \<and> castDocument cfg (req_body req) schemaPaths = Inr fs
   \<and> (\<forall>e \<in> set (storeProducts db). getf e ''_id'' \<noteq> JOid (genId (nextId db)))
   \<and> (\<exists>e \<in> set (storeProducts db). getf e ''productId'' = JOid a \<and> getf e ''storeId'' = JOid b)
   \<longrightarrow> fst (createStoreProduct (mem cfg) req db)
         = failure 409 ''This product already exists in this store.''
     \<and> storeProducts (snd (createStoreProduct (mem cfg) req db)) = storeProducts db
     \<and> products (snd (createStoreProduct (mem cfg) req db)) = products db
     \<and> stores (snd (createStoreProduct (mem cfg) req db)) = stores db"
  using create_duplicate [of req a b db cfg fs] by blast

text \<open>The theorem on the example database: Rice is created at North a second time.\<close>

theorem create_duplicate_conflict_witness:
  "castObjectId (getf (req_body duplicateRequest) ''productId'') = Some idRice
   \<and> castObjectId (getf (req_body duplicateRequest) ''storeId'') = Some idNorth
   \<and> findDoc (products exampleDb) idRice \<noteq> None \<and> findDoc (stores exampleDb) idNorth \<noteq> None
   \<and> castDocument exampleConfig (req_body duplicateRequest) schemaPaths
       = Inr [(''productId'', JOid idRice), (''storeId'', JOid idNorth),
              (''price'', JNum 6), (''stock'', JNum 1)]
   \<and> list_all (\<lambda>e. getf e ''_id'' \<noteq> JOid (genId (nextId exampleDb))) (storeProducts exampleDb)
   \<and> (\<exists>e \<in> set (storeProducts exampleDb).
         getf e ''productId'' = JOid idRice \<and> getf e ''storeId'' = JOid idNorth)
   \<and> fst (createStoreProduct (mem exampleConfig) duplicateRequest exampleDb)
         = failure 409 ''This product already exists in this store.''
   \<and> storeProducts (snd (createStoreProduct (mem exampleConfig) duplicateRequest exampleDb))
         = [riceNorth, riceSouth]"
proof -
  have h: "castObjectId (getf (req_body duplicateRequest) ''productId'') = Some idRice"
    "castObjectId (getf (req_body duplicateRequest) ''storeId'') = Some idNorth"
    "getf (req_body duplicateRequest) ''price'' \<noteq> JUndefined"
    "getf (req_body duplicateRequest) ''stock'' \<noteq> JUndefined"
    "findDoc (products exampleDb) idRice \<noteq> None" "findDoc (stores exampleDb) idNorth \<noteq> None"
    "castDocument exampleConfig (req_body duplicateRequest) schemaPaths
       = Inr [(''productId'', JOid idRice), (''storeId'', JOid idNorth),
              (''price'', JNum 6), (''stock'', JNum 1)]"
    "list_all (\<lambda>e. getf e ''_id'' \<noteq> JOid (genId (nextId exampleDb))) (storeProducts exampleDb)"
    "\<exists>e \<in> set (storeProducts exampleDb).
         getf e ''productId'' = JOid idRice \<and> getf e ''storeId'' = JOid idNorth"
    by code_simp+
  have f: "\<forall>e \<in> set (storeProducts exampleDb). getf e ''_id'' \<noteq> JOid (genId (nextId exampleDb))"
    using h(8) by (simp add: list_all_iff)
  have s: "storeProducts exampleDb = [riceNorth, riceSouth]" by (simp add: exampleDb_def)
  have c: "fst (createStoreProduct (mem exampleConfig) duplicateRequest exampleDb)
         = failure 409 ''This product already exists in this store.''
     \<and> storeProducts (snd (createStoreProduct (mem exampleConfig) duplicateRequest exampleDb))
         = storeProducts exampleDb"
    using h f create_duplicate_conflict [where req = duplicateRequest and a = idRice and b = idNorth
        and db = exampleDb and cfg = exampleConfig
        and fs = "[(''productId'', JOid idRice), (''storeId'', JOid idNorth),
              (''price'', JNum 6), (''stock'', JNum 1)]"]
    by blast
  from h c show ?thesis unfolding s by blast
qed


section \<open>Update\<close>

lemma applySets_obj: "\<exists>gs. applySets sets (JObj fs) = JObj gs"
  by (induction sets arbitrary: fs) (auto simp: setf_def)












section \<open>Joins\<close>

lemma splitDots_names [simp]:
  "splitDots ''productDetails'' = [''productDetails'']"
  "splitDots ''storeDetails'' = [''storeDetails'']"
  "splitDots ''productId'' = [''productId'']"
  "splitDots ''price'' = [''price'']"
  "splitDots ''_id'' = [''_id'']"
  "splitDots ''isAvailable'' = [''isAvailable'']"
  "splitDots ''storeId'' = [''storeId'']"
  "splitDots ''recommended'' = [''recommended'']"
  "splitDots ''discount'' = [''discount'']"
  "splitDots ''productDetails.category'' = [''productDetails'', ''category'']"
  "splitDots ''productDetails.name'' = [''productDetails'', ''name'']"
  "splitDots ''productDetails.description'' = [''productDetails'', ''description'']"
  "splitDots ''productDetails.images'' = [''productDetails'', ''images'']"
  by simp_all

lemma getf_setf_any: "k' \<noteq> k \<Longrightarrow> getf (setf d k v) k' = getf d k'"
  by (cases d) (simp_all add: setf_def)

lemma unwind_lookup:
  "unwindStage (CHR ''$'' # as) (lookupStage F l f as (JObj fs))
     = map (setf (JObj fs) as) (filter (\<lambda>x. lookupEq (readProp fs l) (getf x f)) F)"
  by (simp add: unwindStage_def lookupStage_def setf_def)

lemma lookupEq_oid: "isObjectId w \<Longrightarrow> lookupEq (JOid a) w \<longleftrightarrow> w = JOid a"
  by (cases w) (auto simp: lookupEq_def orNull_def)

lemma filter_unique:
  "distinct (map f xs) \<Longrightarrow>
     filter (\<lambda>x. f x = v) xs = (case find (\<lambda>x. f x = v) xs of None \<Rightarrow> [] | Some x \<Rightarrow> [x])"
proof (induction xs)
  case Nil
  then show ?case by simp
next
  case (Cons x xs)
  show ?case
  proof (cases "f x = v")
    case True
    have "f x \<notin> f ` set xs" using Cons.prems by simp
    then have "\<forall>y \<in> set xs. f y \<noteq> v" using True by (metis imageI)
    then have "filter (\<lambda>x. f x = v) xs = []" by (simp add: filter_empty_conv)
    then show ?thesis using True by simp
  next
    case False
    then show ?thesis using Cons by simp
  qed
qed

lemma join_unique:
  assumes "list_all (\<lambda>x. isObjectId (idOf x)) F" and "distinct (map idOf F)"
  shows "filter (\<lambda>x. lookupEq (JOid a) (getf x ''_id'')) F
           = (case referenced F (JOid a) of None \<Rightarrow> [] | Some x \<Rightarrow> [x])"
proof -
  have "filter (\<lambda>x. lookupEq (JOid a) (getf x ''_id'')) F = filter (\<lambda>x. idOf x = JOid a) F"
    using assms(1) by (intro filter_cong refl) (auto simp: list_all_iff idOf_def lookupEq_oid)
  then show ?thesis using filter_unique [OF assms(2), of "JOid a"] by (simp add: referenced_def)
qed

lemma referenced_defined: "referenced F v = Some x \<Longrightarrow> isObjectId v \<Longrightarrow> x \<noteq> JUndefined \<and> x \<in> set F"
proof -
  assume a: "referenced F v = Some x" "isObjectId v"
  then have "idOf x = v" "x \<in> set F"
    unfolding referenced_def by (auto simp: find_Some_iff)
  then show ?thesis using a(2) by (cases x) (auto simp: idOf_def)
qed

lemma project_joined:
  assumes "p \<noteq> JUndefined" and "st \<noteq> JUndefined"
  shows "projectStage [(''_id'', JNum 1), (''price'', JNum 1), (''stock'', JNum 1),
                    (''isAvailable'', JNum 1), (''recommended'', JNum 1),
                    (''discount'', JNum 1), (''storeSpecificImages'', JNum 1),
                    (''productId'', JStr ''$productDetails''),
                    (''storeId'', JStr ''$storeDetails''),
                    (''createdAt'', JNum 1), (''updatedAt'', JNum 1)]
           (setf (setf (JObj fs) ''productDetails'' p) ''storeDetails'' st)
         = spec_expanded (JObj fs) p st"
  using assms
  by (simp add: projectStage_def spec_expanded_def present_def fieldRef_def setf_def Let_def)


lemma collectionNamed_simps [simp]:
  "collectionNamed db ''products'' = products db"
  "collectionNamed db ''stores'' = stores db"
  by (simp_all add: collectionNamed_def)

lemma list_record:
  assumes sp: "isObjectId (getf sp ''productId'')" "isObjectId (getf sp ''storeId'')"
    and w: "list_all (\<lambda>x. isObjectId (idOf x)) (products db)" "distinct (map idOf (products db))"
      "list_all (\<lambda>x. isObjectId (idOf x)) (stores db)" "distinct (map idOf (stores db))"
  shows "map (projectStage [(''_id'', JNum 1), (''price'', JNum 1), (''stock'', JNum 1),
                    (''isAvailable'', JNum 1), (''recommended'', JNum 1),
                    (''discount'', JNum 1), (''storeSpecificImages'', JNum 1),
                    (''productId'', JStr ''$productDetails''),
                    (''storeId'', JStr ''$storeDetails''),
                    (''createdAt'', JNum 1), (''updatedAt'', JNum 1)])
           (concat (map (unwindStage ''$storeDetails'')
              (map (lookupStage (stores db) ''storeId'' ''_id'' ''storeDetails'')
                 (unwindStage ''$productDetails''
                    (lookupStage (products db) ''productId'' ''_id'' ''productDetails'' sp)))))
         = (case referenced (products db) (getf sp ''productId'') of
              None \<Rightarrow> []
            | Some p \<Rightarrow>
                (case referenced (stores db) (getf sp ''storeId'') of
                   None \<Rightarrow> []
                 | Some st \<Rightarrow> [spec_expanded sp p st]))"
proof -
  obtain fs where fs: "sp = JObj fs" using sp(1) isObjectId_obj by blast
  obtain a b where ab: "readProp fs ''productId'' = JOid a" "readProp fs ''storeId'' = JOid b"
    using sp fs by (auto simp: isObjectId_iff)
  have u1: "unwindStage ''$productDetails''
              (lookupStage (products db) ''productId'' ''_id'' ''productDetails'' sp)
            = (case referenced (products db) (JOid a) of
                 None \<Rightarrow> [] | Some p \<Rightarrow> [setf (JObj fs) ''productDetails'' p])"
    unfolding fs unwind_lookup ab join_unique [OF w(1,2)] by (simp split: option.splits)
  show ?thesis
  proof (cases "referenced (products db) (JOid a)")
    case None
    then show ?thesis using u1 fs ab by simp
  next
    case (Some p)
    have pd: "p \<noteq> JUndefined" using referenced_defined [OF Some] by simp
    obtain gs where gs: "setf (JObj fs) ''productDetails'' p = JObj gs"
      using setf_isObj by blast
    have gb: "readProp gs ''storeId'' = JOid b"
      using getf_setf_any [of "''storeId''" "''productDetails''" "JObj fs" p] gs ab by simp
    have u2: "unwindStage ''$storeDetails''
              (lookupStage (stores db) ''storeId'' ''_id'' ''storeDetails'' (JObj gs))
            = (case referenced (stores db) (JOid b) of
                 None \<Rightarrow> [] | Some st \<Rightarrow> [setf (JObj gs) ''storeDetails'' st])"
      unfolding unwind_lookup gb join_unique [OF w(3,4)] by (simp split: option.splits)
    show ?thesis
    proof (cases "referenced (stores db) (JOid b)")
      case None
      then show ?thesis using u1 u2 Some fs ab gs by simp
    next
      case st: (Some st)
      have sd: "st \<noteq> JUndefined" using referenced_defined [OF st] by simp
      show ?thesis
        using u1 u2 Some st fs ab
        by (simp add: gs [symmetric] project_joined [OF pd sd])
    qed
  qed
qed

lemma list_records:
  assumes w: "list_all (\<lambda>x. isObjectId (idOf x)) (products db)" "distinct (map idOf (products db))"
      "list_all (\<lambda>x. isObjectId (idOf x)) (stores db)" "distinct (map idOf (stores db))"
  shows "list_all (\<lambda>sp. isObjectId (getf sp ''productId'') \<and> isObjectId (getf sp ''storeId'')) sps \<Longrightarrow>
     map (projectStage [(''_id'', JNum 1), (''price'', JNum 1), (''stock'', JNum 1),
                    (''isAvailable'', JNum 1), (''recommended'', JNum 1),
                    (''discount'', JNum 1), (''storeSpecificImages'', JNum 1),
                    (''productId'', JStr ''$productDetails''),
                    (''storeId'', JStr ''$storeDetails''),
                    (''createdAt'', JNum 1), (''updatedAt'', JNum 1)])
           (concat (map (unwindStage ''$storeDetails'')
              (map (lookupStage (stores db) ''storeId'' ''_id'' ''storeDetails'')
                 (concat (map (unwindStage ''$productDetails'')
                    (map (lookupStage (products db) ''productId'' ''_id'' ''productDetails'') sps))))))
         = concat (map (\<lambda>sp.
              case referenced (products db) (getf sp ''productId'') of
                None \<Rightarrow> []
              | Some p \<Rightarrow>
                  (case referenced (stores db) (getf sp ''storeId'') of
                     None \<Rightarrow> []
                   | Some st \<Rightarrow> [spec_expanded sp p st])) sps)"
proof (induction sps)
  case Nil
  then show ?case by simp
next
  case (Cons sp sps)
  have "isObjectId (getf sp ''productId'')" "isObjectId (getf sp ''storeId'')"
    using Cons.prems by simp_all
  note r = list_record [OF this w]
  have ih: "list_all (\<lambda>sp. isObjectId (getf sp ''productId'') \<and> isObjectId (getf sp ''storeId'')) sps"
    using Cons.prems by simp
  show ?case
    using Cons.IH [OF ih] r by simp
qed

lemma list_no_filters:
  assumes "noFilters req"
  shows "listPipeline P req =
          [Lookup ''products'' ''productId'' ''_id'' ''productDetails'',
           Unwind ''$productDetails'',
           Lookup ''stores'' ''storeId'' ''_id'' ''storeDetails'',
           Unwind ''$storeDetails'',
           Project [(''_id'', JNum 1), (''price'', JNum 1), (''stock'', JNum 1),
                    (''isAvailable'', JNum 1), (''recommended'', JNum 1),
                    (''discount'', JNum 1), (''storeSpecificImages'', JNum 1),
                    (''productId'', JStr ''$productDetails''),
                    (''storeId'', JStr ''$storeDetails''),
                    (''createdAt'', JNum 1), (''updatedAt'', JNum 1)]]"
  using assms by (simp add: noFilters_def listPipeline_def listQuery_def Let_def)

lemma list_all_expected:
  "wellFormed db \<and> noFilters req \<longrightarrow>
     getStoreProducts (mem cfg) req db
       = (reply 200 [(''success'', JBool True), (''storeProducts'', JArr (spec_listAll db))],
          sent db)"
proof
  assume a: "wellFormed db \<and> noFilters req"
  then have w: "list_all (\<lambda>x. isObjectId (idOf x)) (products db)" "distinct (map idOf (products db))"
      "list_all (\<lambda>x. isObjectId (idOf x)) (stores db)" "distinct (map idOf (stores db))"
    and s: "list_all (\<lambda>sp. isObjectId (getf sp ''productId'') \<and> isObjectId (getf sp ''storeId''))
              (storeProducts db)"
    by (simp_all add: wellFormed_def)
  have n: "\<not> truthy (readProp (req_query req) ''storeId'')"
    using a by (simp add: noFilters_def)
  have "runPipeline cfg db (listPipeline (mem cfg) req) (storeProducts db) = Inr (spec_listAll db)"
    unfolding list_no_filters [OF a [THEN conjunct2]] spec_listAll_def
    using list_records [OF w s] by simp
  then show "getStoreProducts (mem cfg) req db
       = (reply 200 [(''success'', JBool True), (''storeProducts'', JArr (spec_listAll db))],
          sent db)"
    using n by (simp add: getStoreProducts_def getStoreProducts_try_def mem_aggregate_def Let_def)
qed


lemma readProp_present:
  "readProp (present d ks) k = (if k \<in> set ks then getf d k else JUndefined)"
  by (induction ks) (auto simp: present_def)

lemma keys_present: "fst ` set (present d ks) = {k \<in> set ks. getf d k \<noteq> JUndefined}"
  by (induction ks) (auto simp: present_def)

lemma expanded_fields:
  "getf (spec_expanded sp p st) ''productId'' = p"
  "getf (spec_expanded sp p st) ''storeId'' = st"
  "k \<in> {''_id'', ''price'', ''stock'', ''isAvailable'', ''recommended'', ''discount'',
         ''storeSpecificImages'', ''createdAt'', ''updatedAt''} \<Longrightarrow>
     getf (spec_expanded sp p st) k = getf sp k"
  by (auto simp: spec_expanded_def readProp_append keys_present readProp_present)

lemma referenced_None: "referenced coll v = None \<longleftrightarrow> (\<forall>d \<in> set coll. idOf d \<noteq> v)"
  by (auto simp: referenced_def find_None_iff)

text \<open>
  Claim C5, on the in-memory layer, for a database whose documents conform to the
  schemas. List without filter criteria answers 200 with the list the specification
  describes, \<open>spec_listAll\<close>: the records of the collection, in order, each once, that
  have both their Product and their Store; a record whose Product or Store is not
  there (no document with that identifier) is dropped. A row carries the Product
  document as \<open>productId\<close> and the Store document as \<open>storeId\<close>, and the record's own
  \<open>_id\<close>, \<open>price\<close>, \<open>stock\<close>, \<open>isAvailable\<close>, \<open>recommended\<close>, \<open>discount\<close>,
  \<open>storeSpecificImages\<close>, \<open>createdAt\<close> and \<open>updatedAt\<close>.
\<close>

theorem list_without_filters:
  "(wellFormed db \<and> noFilters req \<longrightarrow>
     getStoreProducts (mem cfg) req db
       = (reply 200 [(''success'', JBool True), (''storeProducts'', JArr (spec_listAll db))],
          sent db))
   \<and> (referenced coll v = None \<longleftrightarrow> (\<forall>d \<in> set coll. idOf d \<noteq> v))
   \<and> getf (spec_expanded sp p st) ''productId'' = p
   \<and> getf (spec_expanded sp p st) ''storeId'' = st
   \<and> (k \<in> {''_id'', ''price'', ''stock'', ''isAvailable'', ''recommended'', ''discount'',
             ''storeSpecificImages'', ''createdAt'', ''updatedAt''} \<longrightarrow>
        getf (spec_expanded sp p st) k = getf sp k)"
  using list_all_expected [of db req cfg] referenced_None [of coll v]
    expanded_fields(1) [of sp p st] expanded_fields(2) [of sp p st]
    expanded_fields(3) [where k = k and sp = sp and p = p and st = st]
  by blast

text \<open>
  The theorem on a database with three records, one of which refers to a product that
  is not there: the two others are listed.
\<close>

theorem list_without_filters_witness:
  "wellFormed orphanDb \<and> noFilters (queryRequest [])
   \<and> getStoreProducts (mem exampleConfig) (queryRequest []) orphanDb
       = (reply 200 [(''success'', JBool True), (''storeProducts'', JArr (spec_listAll orphanDb))],
          sent orphanDb)
   \<and> referenced (products orphanDb) (getf beansNorth ''productId'') = None
   \<and> map (\<lambda>r. getf r ''_id'') (spec_listAll orphanDb) = [JOid idRiceNorth, JOid idRiceSouth]"
proof -
  have h: "wellFormed orphanDb" "noFilters (queryRequest [])"
    by code_simp+
  have e: "referenced (products orphanDb) (getf beansNorth ''productId'') = None"
    "map (\<lambda>r. getf r ''_id'') (spec_listAll orphanDb) = [JOid idRiceNorth, JOid idRiceSouth]"
    by code_simp+
  have "getStoreProducts (mem exampleConfig) (queryRequest []) orphanDb
       = (reply 200 [(''success'', JBool True), (''storeProducts'', JArr (spec_listAll orphanDb))],
          sent orphanDb)"
    using h list_without_filters [where db = orphanDb and req = "queryRequest []"
        and cfg = exampleConfig, THEN conjunct1]
    by blast
  with h e show ?thesis by blast
qed


section \<open>Stages of a pipeline\<close>








section \<open>The filters of List\<close>













section \<open>Minimum and maximum\<close>




section \<open>The summary pipeline\<close>




lemma available_filter:
  "compileMatch cfg [(''isAvailable'', JBool True)]
     = Some (\<lambda>d. eqMatch (getf d ''isAvailable'') (JBool True))"
  by (simp add: compileCond_def isOperatorExpr_def)












end
